theory Spec2Isabelle
  imports Main "HOL-Library.Word"
begin

unbundle bit_operations_syntax

section \<open>The numbits codec\<close>

text \<open>
  \<^verbatim>\<open>sqldata.py\<close> imports \<^verbatim>\<open>nums_to_numbits\<close>, \<^verbatim>\<open>numbits_union\<close> and
  \<^verbatim>\<open>numbits_to_nums\<close> from \<^verbatim>\<open>coverage.numbits\<close>. A numbits value is a byte string;
  bit \<open>k\<close> of byte \<open>i\<close> stands for the integer \<open>8 * i + k\<close>. Line numbers are the
  non-negative integers of the spec, modelled as \<open>nat\<close>.
\<close>

type_synonym byte = "8 word"
type_synonym numbits = "byte list"

definition strip_zeros :: "numbits \<Rightarrow> numbits" where
  \<comment> \<open>Modelled from the spec: the helper behind "truncate trailing zero bytes" of
      \<^verbatim>\<open>coverage.numbits\<close>.\<close>
  "strip_zeros bs = rev (dropWhile (\<lambda>b. b = 0) (rev bs))"

definition set_num :: "nat \<Rightarrow> numbits \<Rightarrow> numbits" where
  \<comment> \<open>Modelled from the spec: "set the corresponding bit" of one number in the
      allocated bytes (\<^verbatim>\<open>coverage.numbits\<close>).\<close>
  "set_num n bs = bs[n div 8 := set_bit (n mod 8) (bs ! (n div 8))]"

definition nums_to_numbits :: "nat list \<Rightarrow> numbits" where
  \<comment> \<open>Modelled from the spec: \<^verbatim>\<open>coverage.numbits.nums_to_numbits\<close>: allocate
      \<open>ceil((max(nums)+1)/8)\<close> bytes, set the corresponding bits, truncate trailing zero
      bytes; the empty set gives the empty byte string.\<close>
  "nums_to_numbits nums =
     (if nums = [] then []
      else strip_zeros (fold set_num nums (replicate ((Max (set nums) + 1 + 7) div 8) 0)))"

definition numbits_to_nums :: "numbits \<Rightarrow> nat list" where
  \<comment> \<open>Modelled from the spec: \<^verbatim>\<open>coverage.numbits.numbits_to_nums\<close>: yield every set
      bit's position.\<close>
  "numbits_to_nums bs =
     concat (map (\<lambda>i. map (\<lambda>k. 8 * i + k) (filter (\<lambda>k. bit (bs ! i) k) [0..<8]))
                 [0..<length bs])"

definition numbits_union :: "numbits \<Rightarrow> numbits \<Rightarrow> numbits" where
  \<comment> \<open>Modelled from the spec: \<^verbatim>\<open>coverage.numbits.numbits_union\<close>: byte-wise OR; pad
      the shorter side with zero; truncate trailing zero bytes.\<close>
  "numbits_union a b =
     strip_zeros (map (\<lambda>i. (if i < length a then a ! i else 0) OR
                           (if i < length b then b ! i else 0))
                      [0..<max (length a) (length b)])"

section \<open>Context switchers (coverage/context.py)\<close>

text \<open>
  A context switcher takes a frame and returns a context label or \<^verbatim>\<open>None\<close>.
  \<^verbatim>\<open>combine_context_switchers\<close> returns \<^verbatim>\<open>None\<close>, one of the given switchers, or the
  closure \<^verbatim>\<open>should_start_context\<close> over the list.
\<close>

fun should_start_context :: "('f \<Rightarrow> 'c option) list \<Rightarrow> 'f \<Rightarrow> 'c option" where
  "should_start_context [] frame = None"
| "should_start_context (switcher # rest) frame =
     (case switcher frame of
        Some new_context \<Rightarrow> Some new_context
      | None \<Rightarrow> should_start_context rest frame)"

definition combine_context_switchers ::
  "('f \<Rightarrow> 'c option) list \<Rightarrow> ('f \<Rightarrow> 'c option) option" where
  "combine_context_switchers context_switchers =
     (if context_switchers = [] then None
      else if length context_switchers = 1 then Some (context_switchers ! 0)
      else Some (should_start_context context_switchers))"

section \<open>The data model (coverage/sqldata.py)\<close>

subsection \<open>The database\<close>

text \<open>
  The tables of \<^verbatim>\<open>SCHEMA\<close>, each as the list of its rows in insertion order. Row ids
  are the integers SQLite assigns; a \<^verbatim>\<open>select\<close> without \<^verbatim>\<open>order by\<close> is read in table
  order. The columns \<^verbatim>\<open>file.id\<close>, \<^verbatim>\<open>context.id\<close> and \<^verbatim>\<open>tracer.file_id\<close> are integer
  primary keys; \<^verbatim>\<open>file_id\<close> and \<^verbatim>\<open>context_id\<close> of \<^verbatim>\<open>line_bits\<close> and \<^verbatim>\<open>arc\<close> may be NULL
  (\<open>None\<close>). Foreign keys are declared by the schema and not enforced by SQLite (the
  source never turns the pragma on), so no statement below checks them.
\<close>

record database =
  coverage_schema_tbl :: "int list"
  meta_tbl :: "(string \<times> string) list"
  file_tbl :: "(nat \<times> string) list"
  context_tbl :: "(nat \<times> string) list"
  line_bits_tbl :: "(nat option \<times> nat option \<times> numbits) list"
  arc_tbl :: "(nat option \<times> nat option \<times> int \<times> int) list"
  tracer_tbl :: "(nat \<times> string) list"

text \<open>
  What a path of the file system (or an in-memory connection) holds: bytes that are
  not an SQLite database (with the flag: do they start with the coverage 4.x
  signature), a database with no tables (as \<^verbatim>\<open>sqlite3.connect\<close> creates it), or a
  database with the tables of \<^verbatim>\<open>SCHEMA\<close>.
\<close>

datatype content = NotSqlite bool | NoTables | Db database

datatype sqlite_error =
    NotADatabase | NoSuchTable | TableExists | ConstraintFailed
  | UserFunctionRaised
  | IntegerTooLarge

datatype backend_msg = SqliteMsg sqlite_error | LooksLikeCoverage4

text \<open>
  The errors of a statement are those SQLite reports, \<open>UserFunctionRaised\<close> when a
  registered Python function raised, and \<open>IntegerTooLarge\<close>, which stands for the
  \<^verbatim>\<open>OverflowError\<close> Python raises when it binds an integer that does not fit SQLite's
  64-bit INTEGER.

  Every \<^verbatim>\<open>raise\<close> of the source is a constructor. The first group are the
  \<^verbatim>\<open>CoverageException\<close>s, named after their message; the second group are the
  exceptions of other classes that the source lets through.
\<close>

datatype error =
    DoesntSeemToBeCoverageDataFile string error
  | WrongSchema string int int
  | CouldntUseDataFile string backend_msg
  | ShouldntReturnRows nat
  | UnrecognizedSerialization "byte list" nat
  | CantAddLinesToBranchData
  | CantAddBranchesToLineData
  | CantAddTracerUnmeasured string
  | ConflictingFileTracer string string string
  | CantTouchEmpty
  | CantCombineArcWithLine
  | CantCombineLineWithArc
  | Sqlite3Error sqlite_error
  | AttributeError
  | TypeError
  | ValueError
  | KeyError
  | AssertionError
  | DecodeError
  | OverflowError
  | ReError

fun is_CoverageException :: "error \<Rightarrow> bool" where
  "is_CoverageException (Sqlite3Error e) = False"
| "is_CoverageException AttributeError = False"
| "is_CoverageException TypeError = False"
| "is_CoverageException ValueError = False"
| "is_CoverageException KeyError = False"
| "is_CoverageException AssertionError = False"
| "is_CoverageException DecodeError = False"
| "is_CoverageException OverflowError = False"
| "is_CoverageException ReError = False"
| "is_CoverageException e = True"

subsection \<open>The objects\<close>

text \<open>
  \<^verbatim>\<open>SqliteDb\<close>: its file name, the nesting depth of its \<^verbatim>\<open>with\<close> scopes and its
  connection. A connection to \<^verbatim>\<open>":memory:"\<close> owns its database; a connection to a
  file works on the content of that path. \<open>txn\<close> is the state of the connection's
  transaction: the database as the last commit left it, to which a rollback returns.
\<close>

datatype connection = FileCon | MemCon content

record sqlitedb =
  sq_filename :: string
  nest :: int
  con :: "connection option"
  txn :: "content option"

datatype suffix_arg = SuffixNone | SuffixBool bool | SuffixStr string

text \<open>
  \<^verbatim>\<open>CoverageData\<close>: the attributes \<^verbatim>\<open>__init__\<close> sets, without the leading underscore.
  \<^verbatim>\<open>dbs\<close> is the entry of \<^verbatim>\<open>self._dbs\<close> for the calling thread (one thread is
  modelled); the lock, the warning sink and the debug control have no effect on the data
  and are left out.
\<close>

record coverage_data =
  no_disk :: bool
  basename :: string
  suffix :: suffix_arg
  filename :: string
  file_map :: "string \<rightharpoonup> nat"
  dbs :: "sqlitedb option"
  pid :: nat
  have_used :: bool
  has_lines :: bool
  has_arcs :: bool
  current_context :: "string option"
  current_context_id :: "nat option"
  query_context_ids :: "nat list option"

text \<open>
  What the process reads from its surroundings: the file system (path to content),
  \<^verbatim>\<open>os.getpid()\<close>, \<^verbatim>\<open>os.path.abspath\<close>, \<^verbatim>\<open>str(sys.argv)\<close>, \<^verbatim>\<open>__version__\<close>, the formatted
  current time, and the suffix that \<^verbatim>\<open>filename_suffix(True)\<close> generates. The world an
  operation runs in is these and the object.
\<close>

record environment =
  fs :: "string \<rightharpoonup> content"
  os_getpid :: nat
  os_path_abspath :: "string \<Rightarrow> string"
  sys_argv :: string
  coverage_version :: string
  now :: string
  generated_suffix :: string

record world = environment +
  self :: coverage_data

subsection \<open>Operations that may raise\<close>

text \<open>
  An operation takes the state and returns its result, or the exception it raised,
  with the state as it then is: a Python exception leaves every mutation of the objects
  made before it in place. The rows written before it are rolled back where the
  outermost \<^verbatim>\<open>with\<close> scope of the connection ends (\<open>sq_exit\<close>).
\<close>

type_synonym ('a, 's) op = "'s \<Rightarrow> (error + 'a) \<times> 's"

definition ret :: "'a \<Rightarrow> ('a, 's) op" where
  "ret a = (\<lambda>s. (Inr a, s))"

definition raise :: "error \<Rightarrow> ('a, 's) op" where
  "raise e = (\<lambda>s. (Inl e, s))"

definition bnd :: "('a, 's) op \<Rightarrow> ('a \<Rightarrow> ('b, 's) op) \<Rightarrow> ('b, 's) op" where
  "bnd m f = (\<lambda>s. case m s of (Inl e, s') \<Rightarrow> (Inl e, s') | (Inr a, s') \<Rightarrow> f a s')"

definition gets :: "('s \<Rightarrow> 'a) \<Rightarrow> ('a, 's) op" where
  "gets f = (\<lambda>s. (Inr (f s), s))"

definition modify :: "('s \<Rightarrow> 's) \<Rightarrow> (unit, 's) op" where
  "modify f = (\<lambda>s. (Inr (), f s))"

definition ensure :: "('a, 's) op \<Rightarrow> (bool \<Rightarrow> 's \<Rightarrow> 's) \<Rightarrow> ('a, 's) op" where
  \<comment> \<open>a scope that ends with \<open>h\<close>, as \<^verbatim>\<open>with\<close> ends with \<^verbatim>\<open>__exit__\<close>: \<open>h\<close> is told
      whether the body raised, and does not raise itself.\<close>
  "ensure m h = (\<lambda>s. case m s of (r, s') \<Rightarrow> (r, h (isl r) s'))"

definition except :: "('a, 's) op \<Rightarrow> (error \<Rightarrow> ('a, 's) op) \<Rightarrow> ('a, 's) op" where
  \<comment> \<open>\<^verbatim>\<open>try: m except Exception as exc: h exc\<close>.\<close>
  "except m h = (\<lambda>s. case m s of (Inl e, s') \<Rightarrow> h e s' | (Inr a, s') \<Rightarrow> (Inr a, s'))"

fun foreach :: "'a list \<Rightarrow> ('a \<Rightarrow> (unit, 's) op) \<Rightarrow> (unit, 's) op" where
  "foreach [] body = ret ()"
| "foreach (x # xs) body = bnd (body x) (\<lambda>_. foreach xs body)"

definition modify_self :: "(coverage_data \<Rightarrow> coverage_data) \<Rightarrow> (unit, world) op" where
  "modify_self f = modify (\<lambda>w. w\<lparr>self := f (self w)\<rparr>)"

section \<open>SQL statements\<close>

text \<open>
  Each SQL text of the source is a function on the tables: it returns the rows it
  selects (or \<^verbatim>\<open>lastrowid\<close>) and the tables as the statement leaves them, or the error
  SQLite reports. A comparison with NULL is never true, and NULLs never collide in a
  \<^verbatim>\<open>unique\<close> constraint.
\<close>

type_synonym 'r stmt = "database \<Rightarrow> sqlite_error + ('r \<times> database)"

definition sql_eq :: "'a option \<Rightarrow> 'a option \<Rightarrow> bool" where
  "sql_eq a b = (a \<noteq> None \<and> a = b)"

definition next_rowid :: "nat list \<Rightarrow> nat" where
  \<comment> \<open>one more than the largest rowid in use; 1 in an empty table\<close>
  "next_rowid ids = (if ids = [] then 1 else Max (set ids) + 1)"

definition select_version :: "int list stmt" where
  \<comment> \<open>\<^verbatim>\<open>select version from coverage_schema\<close>\<close>
  "select_version d = Inr (coverage_schema_tbl d, d)"

definition insert_version :: "int \<Rightarrow> unit stmt" where
  \<comment> \<open>\<^verbatim>\<open>insert into coverage_schema (version) values (?)\<close>\<close>
  "insert_version v d = Inr ((), d\<lparr>coverage_schema_tbl := coverage_schema_tbl d @ [v]\<rparr>)"

definition insert_meta :: "string \<times> string \<Rightarrow> unit stmt" where
  \<comment> \<open>\<^verbatim>\<open>insert into meta (key, value) values (?, ?)\<close>, \<^verbatim>\<open>unique (key)\<close>\<close>
  "insert_meta kv d =
     (if fst kv \<in> fst ` set (meta_tbl d) then Inl ConstraintFailed
      else Inr ((), d\<lparr>meta_tbl := meta_tbl d @ [kv]\<rparr>))"

definition select_has_arcs :: "string list stmt" where
  \<comment> \<open>\<^verbatim>\<open>select value from meta where key = 'has_arcs'\<close>\<close>
  "select_has_arcs d = Inr (map snd (filter (\<lambda>kv. fst kv = ''has_arcs'') (meta_tbl d)), d)"

definition select_path_id :: "(string \<times> nat) list stmt" where
  \<comment> \<open>\<^verbatim>\<open>select path, id from file\<close>\<close>
  "select_path_id d = Inr (map (\<lambda>(i, p). (p, i)) (file_tbl d), d)"

definition select_id_path :: "(nat \<times> string) list stmt" where
  \<comment> \<open>\<^verbatim>\<open>select id, path from file\<close>\<close>
  "select_id_path d = Inr (file_tbl d, d)"

definition select_path :: "string list stmt" where
  \<comment> \<open>\<^verbatim>\<open>select path from file\<close>\<close>
  "select_path d = Inr (map snd (file_tbl d), d)"

definition select_file_limit_1 :: "(nat \<times> string) list stmt" where
  \<comment> \<open>\<^verbatim>\<open>select * from file limit 1\<close>\<close>
  "select_file_limit_1 d = Inr (take 1 (file_tbl d), d)"

definition insert_or_replace_file :: "string \<Rightarrow> nat stmt" where
  \<comment> \<open>\<^verbatim>\<open>insert or replace into file (path) values (?)\<close>, \<^verbatim>\<open>unique (path)\<close>: the row
      with this path, if any, is deleted; the result is \<^verbatim>\<open>lastrowid\<close>\<close>
  "insert_or_replace_file path d =
     (let i = next_rowid (map fst (file_tbl d))
      in Inr (i, d\<lparr>file_tbl := filter (\<lambda>r. snd r \<noteq> path) (file_tbl d) @ [(i, path)]\<rparr>))"

definition insert_or_ignore_file :: "string \<Rightarrow> unit stmt" where
  \<comment> \<open>\<^verbatim>\<open>insert or ignore into file (path) values (?)\<close>\<close>
  "insert_or_ignore_file path d =
     (if path \<in> snd ` set (file_tbl d) then Inr ((), d)
      else Inr ((), d\<lparr>file_tbl := file_tbl d @ [(next_rowid (map fst (file_tbl d)), path)]\<rparr>))"

definition select_context_id :: "string \<Rightarrow> nat list stmt" where
  \<comment> \<open>\<^verbatim>\<open>select id from context where context = ?\<close>\<close>
  "select_context_id ctx d = Inr (map fst (filter (\<lambda>r. snd r = ctx) (context_tbl d)), d)"

definition select_context :: "string list stmt" where
  \<comment> \<open>\<^verbatim>\<open>select context from context\<close>\<close>
  "select_context d = Inr (map snd (context_tbl d), d)"

definition select_distinct_context :: "string list stmt" where
  \<comment> \<open>\<^verbatim>\<open>select distinct(context) from context\<close>\<close>
  "select_distinct_context d = Inr (remdups (map snd (context_tbl d)), d)"

definition select_id_context :: "(nat \<times> string) list stmt" where
  \<comment> \<open>\<^verbatim>\<open>select id, context from context\<close>\<close>
  "select_id_context d = Inr (context_tbl d, d)"

definition insert_context :: "string \<Rightarrow> nat stmt" where
  \<comment> \<open>\<^verbatim>\<open>insert into context (context) values (?)\<close>, \<^verbatim>\<open>unique (context)\<close>; the result is
      \<^verbatim>\<open>lastrowid\<close>\<close>
  "insert_context ctx d =
     (if ctx \<in> snd ` set (context_tbl d) then Inl ConstraintFailed
      else let i = next_rowid (map fst (context_tbl d))
           in Inr (i, d\<lparr>context_tbl := context_tbl d @ [(i, ctx)]\<rparr>))"

definition insert_or_ignore_context :: "string \<Rightarrow> unit stmt" where
  \<comment> \<open>\<^verbatim>\<open>insert or ignore into context (context) values (?)\<close>\<close>
  "insert_or_ignore_context ctx d =
     (if ctx \<in> snd ` set (context_tbl d) then Inr ((), d)
      else Inr ((), d\<lparr>context_tbl :=
             context_tbl d @ [(next_rowid (map fst (context_tbl d)), ctx)]\<rparr>))"

definition in_contexts :: "nat list option \<Rightarrow> nat option \<Rightarrow> bool" where
  \<comment> \<open>the optional clause \<^verbatim>\<open>and context_id in (?, ...)\<close>, added when
      \<^verbatim>\<open>_query_context_ids\<close> is not \<^verbatim>\<open>None\<close>\<close>
  "in_contexts ids c = (case ids of None \<Rightarrow> True | Some l \<Rightarrow> c \<in> Some ` set l)"

definition select_numbits :: "nat option \<Rightarrow> nat option \<Rightarrow> numbits list stmt" where
  \<comment> \<open>\<^verbatim>\<open>select numbits from line_bits where file_id = ? and context_id = ?\<close>\<close>
  "select_numbits fid cid d =
     Inr (map (\<lambda>(f, c, nb). nb)
            (filter (\<lambda>(f, c, nb). sql_eq f fid \<and> sql_eq c cid) (line_bits_tbl d)), d)"

definition select_numbits_of_file :: "nat \<Rightarrow> nat list option \<Rightarrow> numbits list stmt" where
  \<comment> \<open>\<^verbatim>\<open>select numbits from line_bits where file_id = ?\<close>, with the optional clause\<close>
  "select_numbits_of_file fid ids d =
     Inr (map (\<lambda>(f, c, nb). nb)
            (filter (\<lambda>(f, c, nb). f = Some fid \<and> in_contexts ids c) (line_bits_tbl d)), d)"

definition insert_or_replace_line_bits ::
  "nat option \<times> nat option \<times> numbits \<Rightarrow> unit stmt" where
  \<comment> \<open>\<^verbatim>\<open>insert or replace into line_bits (file_id, context_id, numbits) values (?, ?, ?)\<close>,
      \<^verbatim>\<open>unique (file_id, context_id)\<close>\<close>
  "insert_or_replace_line_bits row d =
     (case row of (fid, cid, nb) \<Rightarrow>
        Inr ((), d\<lparr>line_bits_tbl :=
               filter (\<lambda>(f, c, _). \<not> (sql_eq f fid \<and> sql_eq c cid)) (line_bits_tbl d)
               @ [(fid, cid, nb)]\<rparr>))"

definition insert_line_bits :: "nat option \<times> nat option \<times> numbits \<Rightarrow> unit stmt" where
  \<comment> \<open>\<^verbatim>\<open>insert into line_bits (file_id, context_id, numbits) values (?, ?, ?)\<close>\<close>
  "insert_line_bits row d =
     (case row of (fid, cid, nb) \<Rightarrow>
        if \<exists>(f, c, _) \<in> set (line_bits_tbl d). sql_eq f fid \<and> sql_eq c cid
        then Inl ConstraintFailed
        else Inr ((), d\<lparr>line_bits_tbl := line_bits_tbl d @ [(fid, cid, nb)]\<rparr>))"

definition delete_line_bits :: "unit stmt" where
  \<comment> \<open>\<^verbatim>\<open>delete from line_bits\<close>\<close>
  "delete_line_bits d = Inr ((), d\<lparr>line_bits_tbl := []\<rparr>)"

definition select_line_bits_joined :: "(string \<times> string \<times> numbits) list stmt" where
  \<comment> \<open>\<^verbatim>\<open>select file.path, context.context, line_bits.numbits from line_bits
      inner join file on file.id = line_bits.file_id
      inner join context on context.id = line_bits.context_id\<close>\<close>
  "select_line_bits_joined d =
     Inr (concat (map (\<lambda>(f, c, nb).
            concat (map (\<lambda>(i, path).
              map (\<lambda>(j, ctx). (path, ctx, nb))
                  (filter (\<lambda>(j, ctx). Some j = c) (context_tbl d)))
              (filter (\<lambda>(i, path). Some i = f) (file_tbl d))))
          (line_bits_tbl d)), d)"

definition int64 :: "int \<Rightarrow> bool" where
  \<comment> \<open>the integer fits SQLite's INTEGER\<close>
  "int64 i = (- (2 ^ 63) \<le> i \<and> i < 2 ^ 63)"

definition insert_or_ignore_arc :: "nat option \<times> nat option \<times> int \<times> int \<Rightarrow> unit stmt" where
  \<comment> \<open>\<^verbatim>\<open>insert or ignore into arc (file_id, context_id, fromno, tono) values (?, ?, ?, ?)\<close>,
      \<^verbatim>\<open>unique (file_id, context_id, fromno, tono)\<close>\<close>
  "insert_or_ignore_arc row d =
     (case row of (fid, cid, fromno, tono) \<Rightarrow>
        if \<not> (int64 fromno \<and> int64 tono) then Inl IntegerTooLarge
        else if \<exists>(f, c, fr, t) \<in> set (arc_tbl d).
             sql_eq f fid \<and> sql_eq c cid \<and> fr = fromno \<and> t = tono
        then Inr ((), d)
        else Inr ((), d\<lparr>arc_tbl := arc_tbl d @ [(fid, cid, fromno, tono)]\<rparr>))"

definition select_distinct_arcs :: "nat \<Rightarrow> nat list option \<Rightarrow> (int \<times> int) list stmt" where
  \<comment> \<open>\<^verbatim>\<open>select distinct fromno, tono from arc where file_id = ?\<close>, with the optional
      clause\<close>
  "select_distinct_arcs fid ids d =
     Inr (remdups (map (\<lambda>(f, c, fr, t). (fr, t))
            (filter (\<lambda>(f, c, fr, t). f = Some fid \<and> in_contexts ids c) (arc_tbl d))), d)"

definition select_arcs_joined :: "(string \<times> string \<times> int \<times> int) list stmt" where
  \<comment> \<open>\<^verbatim>\<open>select file.path, context.context, arc.fromno, arc.tono from arc
      inner join file on file.id = arc.file_id
      inner join context on context.id = arc.context_id\<close>\<close>
  "select_arcs_joined d =
     Inr (concat (map (\<lambda>(f, c, fr, t).
            concat (map (\<lambda>(i, path).
              map (\<lambda>(j, ctx). (path, ctx, fr, t))
                  (filter (\<lambda>(j, ctx). Some j = c) (context_tbl d)))
              (filter (\<lambda>(i, path). Some i = f) (file_tbl d))))
          (arc_tbl d)), d)"

definition select_tracer :: "nat \<Rightarrow> string list stmt" where
  \<comment> \<open>\<^verbatim>\<open>select tracer from tracer where file_id = ?\<close>\<close>
  "select_tracer fid d = Inr (map snd (filter (\<lambda>r. fst r = fid) (tracer_tbl d)), d)"

definition insert_tracer :: "nat \<times> string \<Rightarrow> unit stmt" where
  \<comment> \<open>\<^verbatim>\<open>insert into tracer (file_id, tracer) values (?, ?)\<close>, \<^verbatim>\<open>file_id\<close> the primary key\<close>
  "insert_tracer row d =
     (if fst row \<in> fst ` set (tracer_tbl d) then Inl ConstraintFailed
      else Inr ((), d\<lparr>tracer_tbl := tracer_tbl d @ [row]\<rparr>))"

definition insert_or_ignore_tracer :: "nat \<times> string \<Rightarrow> unit stmt" where
  \<comment> \<open>\<^verbatim>\<open>insert or ignore into tracer (file_id, tracer) values (?, ?)\<close>\<close>
  "insert_or_ignore_tracer row d =
     (if fst row \<in> fst ` set (tracer_tbl d) then Inr ((), d)
      else Inr ((), d\<lparr>tracer_tbl := tracer_tbl d @ [row]\<rparr>))"

definition select_tracers_joined :: "(string \<times> string) list stmt" where
  \<comment> \<open>\<^verbatim>\<open>select file.path, tracer from tracer
      inner join file on file.id = tracer.file_id\<close>\<close>
  "select_tracers_joined d =
     Inr (concat (map (\<lambda>(f, t).
            map (\<lambda>(i, path). (path, t)) (filter (\<lambda>(i, path). i = f) (file_tbl d)))
          (tracer_tbl d)), d)"

text \<open>
  A script is a function on the content of a database. \<^verbatim>\<open>SCHEMA\<close> creates the seven
  tables, empty, and fails when they exist.
\<close>

type_synonym script = "content \<Rightarrow> sqlite_error + content"

definition empty_database :: database where
  "empty_database = \<lparr>coverage_schema_tbl = [], meta_tbl = [], file_tbl = [],
     context_tbl = [], line_bits_tbl = [], arc_tbl = [], tracer_tbl = []\<rparr>"

definition SCHEMA_VERSION :: int where
  "SCHEMA_VERSION = 7"

definition SCHEMA :: script where
  "SCHEMA c = (case c of NotSqlite _ \<Rightarrow> Inl NotADatabase
                 | NoTables \<Rightarrow> Inr (Db empty_database)
                 | Db _ \<Rightarrow> Inl TableExists)"

definition on_tables :: "'r stmt \<Rightarrow> content \<Rightarrow> sqlite_error + ('r \<times> content)" where
  \<comment> \<open>a statement on tables, run on the content of a database\<close>
  "on_tables stmt c =
     (case c of NotSqlite _ \<Rightarrow> Inl NotADatabase
        | NoTables \<Rightarrow> Inl NoSuchTable
        | Db d \<Rightarrow> (case stmt d of Inl e \<Rightarrow> Inl e | Inr (r, d') \<Rightarrow> Inr (r, Db d')))"

definition pragma :: "content \<Rightarrow> sqlite_error + (unit \<times> content)" where
  \<comment> \<open>\<^verbatim>\<open>pragma journal_mode=off\<close> and \<^verbatim>\<open>pragma synchronous=off\<close>: the first statements
      on a new connection, which fail on a file that is not a database\<close>
  "pragma c = (case c of NotSqlite _ \<Rightarrow> Inl NotADatabase | _ \<Rightarrow> Inr ((), c))"

definition on_script :: "script \<Rightarrow> content \<Rightarrow> sqlite_error + (unit \<times> content)" where
  "on_script sc c = (case sc c of Inl e \<Rightarrow> Inl e | Inr c' \<Rightarrow> Inr ((), c'))"

section \<open>SqliteDb\<close>

text \<open>
  The methods of \<^verbatim>\<open>SqliteDb\<close> act on the object in \<^verbatim>\<open>self._dbs\<close>. Debug output is
  left out.
\<close>

definition new_SqliteDb :: "string \<Rightarrow> sqlitedb" where
  \<comment> \<open>\<^verbatim>\<open>SqliteDb.__init__\<close>\<close>
  "new_SqliteDb fname = \<lparr>sq_filename = fname, nest = 0, con = None, txn = None\<rparr>"

definition sq_content :: "world \<Rightarrow> content option" where
  \<comment> \<open>the database behind the connection, \<open>None\<close> without a connection; a path that
      does not exist is the empty database SQLite creates there\<close>
  "sq_content w =
     (case dbs (self w) of None \<Rightarrow> None
      | Some sq \<Rightarrow>
         (case con sq of None \<Rightarrow> None
          | Some (MemCon c) \<Rightarrow> Some c
          | Some FileCon \<Rightarrow>
             (case fs w (sq_filename sq) of None \<Rightarrow> Some NoTables | Some c \<Rightarrow> Some c)))"

definition sq_put :: "content \<Rightarrow> world \<Rightarrow> world" where
  \<comment> \<open>write the content back to where the connection keeps it\<close>
  "sq_put c w =
     (case dbs (self w) of None \<Rightarrow> w
      | Some sq \<Rightarrow>
         (case con sq of None \<Rightarrow> w
          | Some (MemCon _) \<Rightarrow> w\<lparr>self := (self w)\<lparr>dbs := Some (sq\<lparr>con := Some (MemCon c)\<rparr>)\<rparr>\<rparr>
          | Some FileCon \<Rightarrow> w\<lparr>fs := (fs w)(sq_filename sq \<mapsto> c)\<rparr>))"

text \<open>
  Transactions, as the \<^verbatim>\<open>sqlite3\<close> module runs them for a connection made with
  \<^verbatim>\<open>sqlite3.connect(filename)\<close>: a transaction is begun before a statement when none is
  open, \<^verbatim>\<open>Connection.__exit__\<close> commits it when the \<^verbatim>\<open>with\<close> body returned and rolls it
  back when the body raised, and \<^verbatim>\<open>executescript\<close> commits first and runs its script
  outside of a transaction. (The module begins the transaction before the first
  statement that writes; beginning it before a statement that only reads gives the same
  database on rollback.)
\<close>

definition sq_begin :: "world \<Rightarrow> world" where
  \<comment> \<open>begin a transaction unless one is open: remember the database\<close>
  "sq_begin w =
     (case dbs (self w) of None \<Rightarrow> w
      | Some sq \<Rightarrow>
         (case txn sq of Some _ \<Rightarrow> w
          | None \<Rightarrow> w\<lparr>self := (self w)\<lparr>dbs := Some (sq\<lparr>txn := sq_content w\<rparr>)\<rparr>\<rparr>))"

definition sq_commit :: "world \<Rightarrow> world" where
  \<comment> \<open>commit: no transaction is open any more\<close>
  "sq_commit w =
     w\<lparr>self := (self w)\<lparr>dbs := map_option (\<lambda>q. q\<lparr>txn := None\<rparr>) (dbs (self w))\<rparr>\<rparr>"

definition sq_rollback :: "world \<Rightarrow> world" where
  \<comment> \<open>roll back: the database is again as the transaction found it\<close>
  "sq_rollback w =
     (case dbs (self w) of None \<Rightarrow> w
      | Some sq \<Rightarrow>
         (case txn sq of None \<Rightarrow> w
          | Some c \<Rightarrow> sq_commit (sq_put c w)))"

definition con_run :: "(content \<Rightarrow> sqlite_error + ('r \<times> content)) \<Rightarrow> ('r, world) op" where
  \<comment> \<open>a statement on the open connection; \<^verbatim>\<open>self.con\<close> is \<^verbatim>\<open>None\<close> without a
      connection\<close>
  "con_run stmt w =
     (case sq_content w of None \<Rightarrow> (Inl AttributeError, w)
      | Some c \<Rightarrow>
         (case stmt c of
            Inl e \<Rightarrow> (Inl (if e = IntegerTooLarge then OverflowError else Sqlite3Error e), w)
          | Inr (r, c') \<Rightarrow> (Inr r, sq_put c' w)))"

definition con_execute :: "(content \<Rightarrow> sqlite_error + ('r \<times> content)) \<Rightarrow> ('r, world) op" where
  \<comment> \<open>\<^verbatim>\<open>self.con.execute(sql, parameters)\<close>\<close>
  "con_execute stmt = bnd (modify sq_begin) (\<lambda>_. con_run stmt)"

definition cov4_sig :: "world \<Rightarrow> bool" where
  \<comment> \<open>does the file \<^verbatim>\<open>self.filename\<close> open, and start with the signature
      \<^verbatim>\<open>!coverage.py: This is a private format\<close>\<close>
  "cov4_sig w =
     (case dbs (self w) of None \<Rightarrow> False
      | Some sq \<Rightarrow> fs w (sq_filename sq) = Some (NotSqlite True))"

definition sq_raw :: "(content \<Rightarrow> sqlite_error + ('r \<times> content)) \<Rightarrow> ('r, world) op" where
  \<comment> \<open>the body of \<^verbatim>\<open>SqliteDb.execute\<close>: try, try again, and wrap an \<^verbatim>\<open>sqlite3.Error\<close>\<close>
  "sq_raw stmt =
     except (except (con_execute stmt) (\<lambda>_. con_execute stmt))
       (\<lambda>exc. case exc of
          Sqlite3Error e \<Rightarrow>
            bnd (gets cov4_sig) (\<lambda>sig.
            bnd (gets (\<lambda>w. case dbs (self w) of None \<Rightarrow> [] | Some sq \<Rightarrow> sq_filename sq))
              (\<lambda>fname.
            raise (CouldntUseDataFile fname
                     (if sig then LooksLikeCoverage4 else SqliteMsg e))))
        | _ \<Rightarrow> raise exc)"

definition execute :: "'r stmt \<Rightarrow> ('r, world) op" where
  \<comment> \<open>\<^verbatim>\<open>SqliteDb.execute\<close> of a statement on the tables\<close>
  "execute stmt = sq_raw (on_tables stmt)"

definition execute_one :: "'r list stmt \<Rightarrow> ('r option, world) op" where
  \<comment> \<open>\<^verbatim>\<open>SqliteDb.execute_one\<close>\<close>
  "execute_one stmt =
     bnd (execute stmt) (\<lambda>rows.
       if length rows = 0 then ret None
       else if length rows = 1 then ret (Some (rows ! 0))
       else raise (ShouldntReturnRows (length rows)))"

definition executemany :: "('p \<Rightarrow> unit stmt) \<Rightarrow> 'p list \<Rightarrow> (unit, world) op" where
  \<comment> \<open>\<^verbatim>\<open>SqliteDb.executemany\<close>: the statement once per row of data; on an exception
      the whole call once more; errors are not wrapped\<close>
  "executemany stmt data =
     except (foreach data (\<lambda>row. con_execute (on_tables (stmt row))))
       (\<lambda>_. foreach data (\<lambda>row. con_execute (on_tables (stmt row))))"

definition executescript :: "script \<Rightarrow> (unit, world) op" where
  \<comment> \<open>\<^verbatim>\<open>SqliteDb.executescript\<close>\<close>
  "executescript sc = bnd (modify sq_commit) (\<lambda>_. con_run (on_script sc))"

definition sq_connect :: "(unit, world) op" where
  \<comment> \<open>\<^verbatim>\<open>SqliteDb._connect\<close>; \<^verbatim>\<open>sqlite3.connect\<close> creates the file when the path does
      not exist\<close>
  "sq_connect =
     bnd (gets (\<lambda>w. dbs (self w))) (\<lambda>db.
       case db of None \<Rightarrow> raise AttributeError
       | Some sq \<Rightarrow>
          if con sq \<noteq> None then ret ()
          else
            bnd (modify (\<lambda>w.
                   if sq_filename sq = '':memory:''
                   then w\<lparr>self := (self w)\<lparr>dbs := Some (sq\<lparr>con := Some (MemCon NoTables)\<rparr>)\<rparr>\<rparr>
                   else w\<lparr>self := (self w)\<lparr>dbs := Some (sq\<lparr>con := Some FileCon\<rparr>)\<rparr>,
                          fs := (case fs w (sq_filename sq) of
                                   None \<Rightarrow> (fs w)(sq_filename sq \<mapsto> NoTables)
                                 | Some _ \<Rightarrow> fs w)\<rparr>))
              (\<lambda>_.
            bnd (sq_raw pragma) (\<lambda>_.
            sq_raw pragma)))"

definition sq_close :: "world \<Rightarrow> world" where
  \<comment> \<open>\<^verbatim>\<open>SqliteDb.close\<close>\<close>
  "sq_close w =
     (case dbs (self w) of None \<Rightarrow> w
      | Some sq \<Rightarrow>
         if con sq \<noteq> None \<and> sq_filename sq \<noteq> '':memory:''
         then w\<lparr>self := (self w)\<lparr>dbs := Some (sq\<lparr>con := None\<rparr>)\<rparr>\<rparr>
         else w)"

definition sq_enter :: "(unit, world) op" where
  \<comment> \<open>\<^verbatim>\<open>SqliteDb.__enter__\<close>\<close>
  "sq_enter =
     bnd (gets (\<lambda>w. dbs (self w))) (\<lambda>db.
       case db of None \<Rightarrow> raise AttributeError
       | Some sq \<Rightarrow>
          bnd (if nest sq = 0 then sq_connect else ret ()) (\<lambda>_.
          modify_self (\<lambda>c. c\<lparr>dbs := map_option (\<lambda>q. q\<lparr>nest := nest q + 1\<rparr>) (dbs c)\<rparr>)))"

definition sq_exit :: "bool \<Rightarrow> world \<Rightarrow> world" where
  \<comment> \<open>\<^verbatim>\<open>SqliteDb.__exit__\<close>; \<open>raised\<close> says that the body of the \<^verbatim>\<open>with\<close> raised. At the
      outermost scope \<^verbatim>\<open>self.con.__exit__\<close> rolls the transaction back if so and commits
      it otherwise, and the connection is closed.\<close>
  "sq_exit raised w =
     (let w1 = w\<lparr>self := (self w)\<lparr>dbs :=
                  map_option (\<lambda>q. q\<lparr>nest := nest q - 1\<rparr>) (dbs (self w))\<rparr>\<rparr>
      in case dbs (self w1) of None \<Rightarrow> w1
         | Some sq \<Rightarrow>
             if nest sq = 0
             then sq_close (if raised then sq_rollback w1 else sq_commit w1)
             else w1)"

definition with_db :: "('a, world) op \<Rightarrow> ('a, world) op" where
  \<comment> \<open>\<^verbatim>\<open>with db: body\<close>\<close>
  "with_db body = bnd sq_enter (\<lambda>_. ensure body sq_exit)"

section \<open>CoverageData\<close>

definition filename_suffix :: "suffix_arg \<Rightarrow> world \<Rightarrow> string option" where
  \<comment> \<open>Modelled from the spec: \<^verbatim>\<open>coverage.misc.filename_suffix\<close>: "when suffix is the
      boolean true, generate a default suffix"; any other suffix is returned as it is
      (\<open>None\<close> for \<^verbatim>\<open>None\<close> and \<^verbatim>\<open>False\<close>).\<close>
  "filename_suffix sfx w =
     (case sfx of SuffixNone \<Rightarrow> None
      | SuffixBool b \<Rightarrow> (if b then Some (generated_suffix w) else None)
      | SuffixStr s \<Rightarrow> Some s)"

definition choose_filename :: "world \<Rightarrow> world" where
  \<comment> \<open>\<^verbatim>\<open>CoverageData._choose_filename\<close>\<close>
  "choose_filename w =
     (if no_disk (self w) then w\<lparr>self := (self w)\<lparr>filename := '':memory:''\<rparr>\<rparr>
      else
        (case filename_suffix (suffix (self w)) w of
           Some sfx \<Rightarrow>
             (if sfx \<noteq> [] then w\<lparr>self := (self w)\<lparr>filename := basename (self w) @ ''.'' @ sfx\<rparr>\<rparr>
              else w\<lparr>self := (self w)\<lparr>filename := basename (self w)\<rparr>\<rparr>)
         | None \<Rightarrow> w\<lparr>self := (self w)\<lparr>filename := basename (self w)\<rparr>\<rparr>))"

definition CoverageData :: "string option \<Rightarrow> suffix_arg \<Rightarrow> bool \<Rightarrow> environment \<Rightarrow> world" where
  \<comment> \<open>\<^verbatim>\<open>CoverageData.__init__(basename, suffix, no_disk)\<close>: the world with the new
      object as \<open>self\<close>\<close>
  "CoverageData bname sfx nodisk e =
     choose_filename
       \<lparr>fs = fs e, os_getpid = os_getpid e, os_path_abspath = os_path_abspath e,
        sys_argv = sys_argv e, coverage_version = coverage_version e, now = now e,
        generated_suffix = generated_suffix e,
        self =
          \<lparr>no_disk = nodisk,
           basename = os_path_abspath e
             (case bname of None \<Rightarrow> ''.coverage''
              | Some b \<Rightarrow> if b = [] then ''.coverage'' else b),
           suffix = sfx,
           filename = [],
           file_map = Map.empty,
           dbs = None,
           pid = os_getpid e,
           have_used = False,
           has_lines = False,
           has_arcs = False,
           current_context = None,
           current_context_id = None,
           query_context_ids = None\<rparr>\<rparr>"

definition reset :: "world \<Rightarrow> world" where
  \<comment> \<open>\<^verbatim>\<open>CoverageData._reset\<close>: the connections are closed and the objects dropped\<close>
  "reset w =
     (sq_close w)\<lparr>self := (self (sq_close w))\<lparr>dbs := None, file_map := Map.empty,
        have_used := False, current_context_id := None\<rparr>\<rparr>"

definition create_db :: "(unit, world) op" where
  \<comment> \<open>\<^verbatim>\<open>CoverageData._create_db\<close>\<close>
  "create_db =
     bnd (modify_self (\<lambda>c. c\<lparr>dbs := Some (new_SqliteDb (filename c))\<rparr>)) (\<lambda>_.
     with_db (
       bnd (executescript SCHEMA) (\<lambda>_.
       bnd (execute (insert_version SCHEMA_VERSION)) (\<lambda>_.
       bnd (gets (\<lambda>w. [(''sys_argv'', sys_argv w),
                        (''version'', coverage_version w),
                        (''when'', now w)])) (\<lambda>rows.
       executemany insert_meta rows)))))"

definition py_strip :: "string \<Rightarrow> string" where
  \<comment> \<open>\<^verbatim>\<open>s.strip()\<close>, for the ASCII white space\<close>
  "py_strip s =
     rev (dropWhile (\<lambda>c. c \<in> set [CHR '' '', CHR 0x09, CHR 0x0A, CHR 0x0B, CHR 0x0C, CHR 0x0D])
       (rev (dropWhile (\<lambda>c. c \<in> set [CHR '' '', CHR 0x09, CHR 0x0A, CHR 0x0B, CHR 0x0C, CHR 0x0D])
          s)))"

fun digit_groups :: "string \<Rightarrow> bool" where
  \<comment> \<open>decimal digits, with single underscores between digits only\<close>
  "digit_groups [] = False"
| "digit_groups [c] = (c \<in> set ''0123456789'')"
| "digit_groups (c # d # cs) =
     (c \<in> set ''0123456789'' \<and>
      (if d = CHR ''_'' then digit_groups cs else digit_groups (d # cs)))"

definition py_int :: "string \<Rightarrow> int option" where
  \<comment> \<open>\<^verbatim>\<open>int(s)\<close> of a string, \<open>None\<close> for its \<^verbatim>\<open>ValueError\<close>: white space around, an
      optional sign, decimal digits with single underscores between them (ASCII
      characters; the source writes \<^verbatim>\<open>str(int(arcs))\<close>, that is "0" or "1")\<close>
  "py_int s =
     (let t = py_strip s;
          neg = (take 1 t = ''-'');
          u = (if take 1 t = ''-'' \<or> take 1 t = ''+'' then drop 1 t else t)
      in if digit_groups u
         then let n = foldl (\<lambda>n c. 10 * n + (of_char c - 48)) 0
                        (filter (\<lambda>c. c \<noteq> CHR ''_'') u)
              in Some (if neg then - n else n)
         else None)"

definition read_db :: "(unit, world) op" where
  \<comment> \<open>\<^verbatim>\<open>CoverageData._read_db\<close>\<close>
  "read_db =
     with_db (
       bnd (except
              (bnd (execute_one select_version) (\<lambda>row.
                 case row of None \<Rightarrow> raise TypeError | Some v \<Rightarrow> ret v))
              (\<lambda>exc. bnd (gets (\<lambda>w. filename (self w))) (\<lambda>fname.
                 raise (DoesntSeemToBeCoverageDataFile fname exc))))
         (\<lambda>schema_version.
       bnd (if schema_version \<noteq> SCHEMA_VERSION
            then bnd (gets (\<lambda>w. filename (self w))) (\<lambda>fname.
                   raise (WrongSchema fname schema_version SCHEMA_VERSION))
            else ret ()) (\<lambda>_.
       bnd (execute select_has_arcs) (\<lambda>rows.
       bnd (foreach rows (\<lambda>row.
              case py_int row of None \<Rightarrow> raise ValueError
              | Some n \<Rightarrow>
                  modify_self (\<lambda>c. c\<lparr>has_arcs := (n \<noteq> 0), has_lines := \<not> (n \<noteq> 0)\<rparr>)))
         (\<lambda>_.
       bnd (execute select_path_id) (\<lambda>rows.
       foreach rows (\<lambda>(path, file_id).
         modify_self (\<lambda>c. c\<lparr>file_map := (file_map c)(path \<mapsto> file_id)\<rparr>))))))))"

definition open_db :: "(unit, world) op" where
  \<comment> \<open>\<^verbatim>\<open>CoverageData._open_db\<close>\<close>
  "open_db =
     bnd (modify_self (\<lambda>c. c\<lparr>dbs := Some (new_SqliteDb (filename c))\<rparr>)) (\<lambda>_. read_db)"

definition connect :: "(unit, world) op" where
  \<comment> \<open>\<^verbatim>\<open>CoverageData._connect\<close>; the object it returns is the one in \<open>dbs\<close>\<close>
  "connect =
     bnd (gets (\<lambda>w. dbs (self w) = None)) (\<lambda>absent.
       if absent then
         bnd (gets (\<lambda>w. fs w (filename (self w)) \<noteq> None)) (\<lambda>exists.
           if exists then open_db else create_db)
       else ret ())"

definition with_connect :: "('a, world) op \<Rightarrow> ('a, world) op" where
  \<comment> \<open>\<^verbatim>\<open>with self._connect() as con: body\<close>\<close>
  "with_connect body = bnd connect (\<lambda>_. with_db body)"

definition erase :: "world \<Rightarrow> world" where
  \<comment> \<open>\<^verbatim>\<open>CoverageData.erase()\<close>, with \<^verbatim>\<open>parallel=False\<close> as every call in this file
      has it; \<^verbatim>\<open>file_be_gone\<close> removes the file if it exists\<close>
  "erase w =
     (let w1 = reset w
      in if no_disk (self w1) then w1
         else w1\<lparr>fs := (fs w1)(filename (self w1) := None)\<rparr>)"

definition read :: "(unit, world) op" where
  \<comment> \<open>\<^verbatim>\<open>CoverageData.read\<close>\<close>
  "read = with_connect (modify_self (\<lambda>c. c\<lparr>have_used := True\<rparr>))"

definition start_using :: "world \<Rightarrow> world" where
  \<comment> \<open>\<^verbatim>\<open>CoverageData._start_using\<close>\<close>
  "start_using w =
     (let w1 = (if pid (self w) \<noteq> os_getpid w
                then (let w' = choose_filename (reset w)
                      in w'\<lparr>self := (self w')\<lparr>pid := os_getpid w'\<rparr>\<rparr>)
                else w);
          w2 = (if \<not> have_used (self w1) then erase w1 else w1)
      in w2\<lparr>self := (self w2)\<lparr>have_used := True\<rparr>\<rparr>)"

definition file_id :: "string \<Rightarrow> bool \<Rightarrow> (nat option, world) op" where
  \<comment> \<open>\<^verbatim>\<open>CoverageData._file_id(filename, add)\<close>\<close>
  "file_id fname add =
     bnd (gets (\<lambda>w. file_map (self w) fname = None)) (\<lambda>missing.
     bnd (if missing \<and> add
          then with_connect (
                 bnd (execute (insert_or_replace_file fname)) (\<lambda>lastrowid.
                 modify_self (\<lambda>c. c\<lparr>file_map := (file_map c)(fname \<mapsto> lastrowid)\<rparr>)))
          else ret ()) (\<lambda>_.
     gets (\<lambda>w. file_map (self w) fname)))"

definition context_id :: "string \<Rightarrow> (nat option, world) op" where
  \<comment> \<open>\<^verbatim>\<open>CoverageData._context_id\<close>\<close>
  "context_id ctx =
     bnd (modify start_using) (\<lambda>_.
     with_connect (
       bnd (execute_one (select_context_id ctx)) (\<lambda>row.
       case row of Some i \<Rightarrow> ret (Some i) | None \<Rightarrow> ret None)))"


definition set_context_id :: "(unit, world) op" where
  \<comment> \<open>\<^verbatim>\<open>CoverageData._set_context_id\<close>; \<^verbatim>\<open>self._current_context or ""\<close>\<close>
  "set_context_id =
     bnd (gets (\<lambda>w. case current_context (self w) of None \<Rightarrow> [] | Some c \<Rightarrow> c)) (\<lambda>ctx.
     bnd (context_id ctx) (\<lambda>cid.
       case cid of
         Some i \<Rightarrow> modify_self (\<lambda>c. c\<lparr>current_context_id := Some i\<rparr>)
       | None \<Rightarrow>
           with_connect (
             bnd (execute (insert_context ctx)) (\<lambda>lastrowid.
             modify_self (\<lambda>c. c\<lparr>current_context_id := Some lastrowid\<rparr>)))))"

definition choose_lines_or_arcs :: "bool \<Rightarrow> bool \<Rightarrow> (unit, world) op" where
  \<comment> \<open>\<^verbatim>\<open>CoverageData._choose_lines_or_arcs(lines, arcs)\<close>\<close>
  "choose_lines_or_arcs lines arcs =
     (if \<not> (lines \<or> arcs) then raise AssertionError
      else if lines \<and> arcs then raise AssertionError
      else
        bnd (gets self) (\<lambda>c.
          if lines \<and> has_arcs c then raise CantAddLinesToBranchData
          else if arcs \<and> has_lines c then raise CantAddBranchesToLineData
          else if \<not> has_arcs c \<and> \<not> has_lines c then
            bnd (modify_self (\<lambda>c. c\<lparr>has_lines := lines, has_arcs := arcs\<rparr>)) (\<lambda>_.
            with_connect (
              execute (insert_meta (''has_arcs'', if arcs then ''1'' else ''0''))))
          else ret ()))"

definition add_lines :: "(string \<times> nat list) list \<Rightarrow> (unit, world) op" where
  \<comment> \<open>\<^verbatim>\<open>CoverageData.add_lines\<close>; \<open>line_data\<close> is the items of the dictionary\<close>
  "add_lines line_data =
     bnd (modify start_using) (\<lambda>_.
     bnd (choose_lines_or_arcs True False) (\<lambda>_.
     if line_data = [] then ret ()
     else
       with_connect (
         bnd set_context_id (\<lambda>_.
         foreach line_data (\<lambda>(fname, linenos).
           bnd (file_id fname True) (\<lambda>fid.
           bnd (gets (\<lambda>w. current_context_id (self w))) (\<lambda>cid.
           bnd (execute (select_numbits fid cid)) (\<lambda>existing.
           execute (insert_or_replace_line_bits
             (fid, cid,
              if existing \<noteq> []
              then numbits_union (nums_to_numbits linenos) (existing ! 0)
              else nums_to_numbits linenos))))))))))"

definition add_arcs :: "(string \<times> (int \<times> int) list) list \<Rightarrow> (unit, world) op" where
  \<comment> \<open>\<^verbatim>\<open>CoverageData.add_arcs\<close>; \<open>arc_data\<close> is the items of the dictionary\<close>
  "add_arcs arc_data =
     bnd (modify start_using) (\<lambda>_.
     bnd (choose_lines_or_arcs False True) (\<lambda>_.
     if arc_data = [] then ret ()
     else
       with_connect (
         bnd set_context_id (\<lambda>_.
         foreach arc_data (\<lambda>(fname, arcs).
           bnd (file_id fname True) (\<lambda>fid.
           bnd (gets (\<lambda>w. current_context_id (self w))) (\<lambda>cid.
           executemany insert_or_ignore_arc
             (map (\<lambda>(fromno, tono). (fid, cid, fromno, tono)) arcs))))))))"

definition file_tracer :: "string \<Rightarrow> (string option, world) op" where
  \<comment> \<open>\<^verbatim>\<open>CoverageData.file_tracer\<close>\<close>
  "file_tracer fname =
     bnd (modify start_using) (\<lambda>_.
     with_connect (
       bnd (file_id fname False) (\<lambda>fid.
         case fid of None \<Rightarrow> ret None
         | Some i \<Rightarrow>
             bnd (execute_one (select_tracer i)) (\<lambda>row.
               case row of Some t \<Rightarrow> ret (Some t) | None \<Rightarrow> ret (Some [])))))"

definition add_file_tracers :: "(string \<times> string) list \<Rightarrow> (unit, world) op" where
  \<comment> \<open>\<^verbatim>\<open>CoverageData.add_file_tracers\<close>\<close>
  "add_file_tracers file_tracers =
     (if file_tracers = [] then ret ()
      else
        bnd (modify start_using) (\<lambda>_.
        with_connect (
          foreach file_tracers (\<lambda>(fname, plugin_name).
            bnd (file_id fname False) (\<lambda>fid.
              case fid of None \<Rightarrow> raise (CantAddTracerUnmeasured fname)
              | Some i \<Rightarrow>
                  bnd (file_tracer fname) (\<lambda>existing_plugin.
                    if existing_plugin \<noteq> None \<and> existing_plugin \<noteq> Some []
                    then (if existing_plugin \<noteq> Some plugin_name
                          then raise (ConflictingFileTracer fname
                                        (case existing_plugin of Some t \<Rightarrow> t | None \<Rightarrow> [])
                                        plugin_name)
                          else ret ())
                    else if plugin_name \<noteq> []
                    then execute (insert_tracer (i, plugin_name))
                    else ret ()))))))"

definition touch_files :: "string list \<Rightarrow> string \<Rightarrow> (unit, world) op" where
  \<comment> \<open>\<^verbatim>\<open>CoverageData.touch_files\<close>\<close>
  "touch_files filenames plugin_name =
     bnd (modify start_using) (\<lambda>_.
     with_connect (
       bnd (gets self) (\<lambda>c.
         if \<not> has_arcs c \<and> \<not> has_lines c then raise CantTouchEmpty
         else
           foreach filenames (\<lambda>fname.
             bnd (file_id fname True) (\<lambda>_.
             if plugin_name \<noteq> [] then add_file_tracers [(fname, plugin_name)]
             else ret ())))))"

definition measured_files :: "world \<Rightarrow> string set" where
  \<comment> \<open>\<^verbatim>\<open>CoverageData.measured_files\<close>\<close>
  "measured_files w = dom (file_map (self w))"

definition measured_contexts :: "(string set, world) op" where
  \<comment> \<open>\<^verbatim>\<open>CoverageData.measured_contexts\<close>\<close>
  "measured_contexts =
     bnd (modify start_using) (\<lambda>_.
     with_connect (
       bnd (execute select_distinct_context) (\<lambda>rows. ret (set rows))))"

definition set_query_context :: "string \<Rightarrow> (unit, world) op" where
  \<comment> \<open>\<^verbatim>\<open>CoverageData.set_query_context\<close>\<close>
  "set_query_context ctx =
     bnd (modify start_using) (\<lambda>_.
     with_connect (
       bnd (execute (select_context_id ctx)) (\<lambda>rows.
       modify_self (\<lambda>c. c\<lparr>query_context_ids := Some rows\<rparr>))))"

definition arcs :: "string \<Rightarrow> ((int \<times> int) list option, world) op" where
  \<comment> \<open>\<^verbatim>\<open>CoverageData.arcs\<close>\<close>
  "arcs fname =
     bnd (modify start_using) (\<lambda>_.
     with_connect (
       bnd (file_id fname False) (\<lambda>fid.
         case fid of None \<Rightarrow> ret None
         | Some i \<Rightarrow>
             bnd (gets (\<lambda>w. query_context_ids (self w))) (\<lambda>ids.
             bnd (execute (select_distinct_arcs i ids)) (\<lambda>rows.
             ret (Some rows))))))"

definition lines_of_numbits :: "string \<Rightarrow> (int list option, world) op" where
  \<comment> \<open>the second half of \<^verbatim>\<open>CoverageData.lines\<close>: the \<^verbatim>\<open>with\<close> block; a Python set is
      listed without repetition\<close>
  "lines_of_numbits fname =
     with_connect (
       bnd (file_id fname False) (\<lambda>fid.
         case fid of None \<Rightarrow> ret None
         | Some i \<Rightarrow>
             bnd (gets (\<lambda>w. query_context_ids (self w))) (\<lambda>ids.
             bnd (execute (select_numbits_of_file i ids)) (\<lambda>bitmaps.
             ret (Some (remdups (map int (concat (map numbits_to_nums bitmaps)))))))))"

definition lines :: "string \<Rightarrow> (int list option, world) op" where
  \<comment> \<open>\<^verbatim>\<open>CoverageData.lines\<close>\<close>
  "lines fname =
     bnd (modify start_using) (\<lambda>_.
     bnd (gets (\<lambda>w. has_arcs (self w))) (\<lambda>has.
       if has then
         bnd (arcs fname) (\<lambda>a.
           case a of
             Some pairs \<Rightarrow>
               ret (Some (remdups (filter (\<lambda>l. l > 0)
                                     (concat (map (\<lambda>(fr, t). [fr, t]) pairs)))))
           | None \<Rightarrow> lines_of_numbits fname)
       else lines_of_numbits fname))"

subsection \<open>Serialization\<close>

text \<open>
  \<^verbatim>\<open>zlib.compress\<close>, \<^verbatim>\<open>zlib.decompress\<close>, the SQL text dump of a database and the
  meaning of a dumped script are parameters: \<open>dump\<close> is
  \<^verbatim>\<open>con.dump().encode("utf8")\<close>, \<open>decode\<close> is \<^verbatim>\<open>.decode("utf8")\<close> followed by
  the reading of the text as a script.
\<close>

definition dumps ::
  "(content \<Rightarrow> byte list) \<Rightarrow> (byte list \<Rightarrow> byte list) \<Rightarrow> (byte list, world) op" where
  \<comment> \<open>\<^verbatim>\<open>CoverageData.dumps\<close>; \<^verbatim>\<open>b'z'\<close> is the byte 122\<close>
  "dumps dump zlib_compress =
     with_connect (
       bnd (gets sq_content) (\<lambda>c.
         case c of None \<Rightarrow> raise AttributeError
         | Some (NotSqlite sig) \<Rightarrow> raise (Sqlite3Error NotADatabase)
         | Some c' \<Rightarrow> ret (122 # zlib_compress (dump c'))))"

definition loads ::
  "(byte list \<Rightarrow> byte list option) \<Rightarrow> (byte list \<Rightarrow> script option) \<Rightarrow> byte list \<Rightarrow>
   (unit, world) op" where
  \<comment> \<open>\<^verbatim>\<open>CoverageData.loads\<close>\<close>
  "loads zlib_decompress decode data =
     (if take 1 data \<noteq> [122]
      then raise (UnrecognizedSerialization (take 40 data) (length data))
      else
        (case zlib_decompress (drop 1 data) of None \<Rightarrow> raise DecodeError
         | Some bytes \<Rightarrow>
            (case decode bytes of None \<Rightarrow> raise DecodeError
             | Some sc \<Rightarrow>
                bnd (modify_self (\<lambda>c. c\<lparr>dbs := Some (new_SqliteDb (filename c))\<rparr>)) (\<lambda>_.
                bnd (with_db (executescript sc)) (\<lambda>_.
                bnd read_db (\<lambda>_.
                modify_self (\<lambda>c. c\<lparr>have_used := True\<rparr>)))))))"

subsection \<open>The REGEXP function\<close>

text \<open>
  \<^verbatim>\<open>re.search(pattern, string)\<close>: its first argument is the regular expression, its
  second the string that is searched, its result a match (here: its position) or
  \<^verbatim>\<open>None\<close>. For a pattern without special characters it is the search for the first
  occurrence of the pattern in the string (\<open>literal_search\<close>). For any other pattern
  it is what the regular-expression engine gives, which is a parameter: \<^verbatim>\<open>re.error\<close> for a
  string that is not a regular expression, a match or \<^verbatim>\<open>None\<close> otherwise.
\<close>

definition special_chars :: string where
  \<comment> \<open>the special characters of \<^verbatim>\<open>re\<close>; the last one is the backslash\<close>
  "special_chars = ''.^$*+?{}[]|()'' @ [CHR 0x5C]"

definition plain :: "string \<Rightarrow> bool" where
  "plain pat = list_all (\<lambda>c. c \<notin> set special_chars) pat"

fun literal_search_from :: "nat \<Rightarrow> string \<Rightarrow> string \<Rightarrow> nat option" where
  "literal_search_from i pat [] = (if pat = [] then Some i else None)"
| "literal_search_from i pat (c # cs) =
     (if take (length pat) (c # cs) = pat then Some i
      else literal_search_from (Suc i) pat cs)"

definition literal_search :: "string \<Rightarrow> string \<Rightarrow> nat option" where
  "literal_search pat str = literal_search_from 0 pat str"

definition re_search ::
  "(string \<Rightarrow> string \<Rightarrow> error + nat option) \<Rightarrow> string \<Rightarrow> string \<Rightarrow> error + nat option" where
  \<comment> \<open>\<^verbatim>\<open>re.search(pat, str)\<close>\<close>
  "re_search engine pat str =
     (if plain pat then Inr (literal_search pat str) else engine pat str)"

definition regexp ::
  "(string \<Rightarrow> string \<Rightarrow> error + nat option) \<Rightarrow> string \<Rightarrow> string \<Rightarrow> error + bool" where
  \<comment> \<open>\<^verbatim>\<open>_regexp(text, pattern)\<close>: \<^verbatim>\<open>return re.search(text, pattern) is not None\<close>\<close>
  "regexp engine text pattern =
     (case re_search engine text pattern of Inl e \<Rightarrow> Inl e | Inr m \<Rightarrow> Inr (m \<noteq> None))"

fun regexp_or ::
  "(string \<Rightarrow> string \<Rightarrow> error + nat option) \<Rightarrow> string list \<Rightarrow> string \<Rightarrow> error + bool" where
  \<comment> \<open>\<^verbatim>\<open>context regexp ? or context regexp ? ...\<close> on one row, with the parameters
      \<open>pats\<close>: SQLite evaluates \<^verbatim>\<open>X regexp Y\<close> as the call \<^verbatim>\<open>regexp(Y, X)\<close> of the
      registered function, and the terms of \<^verbatim>\<open>or\<close> from the left up to the first true one\<close>
  "regexp_or engine [] ctx = Inr False"
| "regexp_or engine (p # pats) ctx =
     (case regexp engine p ctx of
        Inl e \<Rightarrow> Inl e
      | Inr b \<Rightarrow> if b then Inr True else regexp_or engine pats ctx)"

fun where_regexp ::
  "(string \<Rightarrow> string \<Rightarrow> error + nat option) \<Rightarrow> string list \<Rightarrow> (nat \<times> string) list \<Rightarrow>
   nat list \<times> bool" where
  \<comment> \<open>the ids of the rows that satisfy the clause, up to the end of the table or to the
      row on which the function raised (then the flag is set)\<close>
  "where_regexp engine pats [] = ([], False)"
| "where_regexp engine pats (row # rows) =
     (case regexp_or engine pats (snd row) of
        Inl e \<Rightarrow> ([], True)
      | Inr b \<Rightarrow>
          (case where_regexp engine pats rows of
             (ids, raised) \<Rightarrow> (if b then fst row # ids else ids, raised)))"

definition select_id_regexp ::
  "(string \<Rightarrow> string \<Rightarrow> error + nat option) \<Rightarrow> string list \<Rightarrow> (nat list \<times> bool) stmt" where
  \<comment> \<open>\<^verbatim>\<open>select id from context where context regexp ? or ...\<close>, as a cursor:
      \<^verbatim>\<open>execute\<close> runs the query up to its first result row, so an exception of the
      function before that row is the statement's error; one after it is raised when the
      remaining rows are fetched, and the statement returns the rows before it with the
      flag set\<close>
  "select_id_regexp engine contexts d =
     (case where_regexp engine contexts (context_tbl d) of
        (ids, raised) \<Rightarrow>
          if raised \<and> ids = [] then Inl UserFunctionRaised
          else Inr ((ids, raised), d))"

definition set_query_contexts ::
  "(string \<Rightarrow> string \<Rightarrow> error + nat option) \<Rightarrow> string list \<Rightarrow> (unit, world) op" where
  \<comment> \<open>\<^verbatim>\<open>CoverageData.set_query_contexts\<close>; \<^verbatim>\<open>cur.fetchall()\<close> raises what the cursor
      has left to raise\<close>
  "set_query_contexts engine contexts =
     bnd (modify start_using) (\<lambda>_.
     if contexts \<noteq> [] then
       with_connect (
         bnd (execute (select_id_regexp engine contexts)) (\<lambda>(rows, raised).
         if raised then raise (Sqlite3Error UserFunctionRaised)
         else modify_self (\<lambda>c. c\<lparr>query_context_ids := Some rows\<rparr>)))
     else modify_self (\<lambda>c. c\<lparr>query_context_ids := None\<rparr>))"

subsection \<open>Truth value\<close>

definition nonzero :: "(bool, world) op" where
  \<comment> \<open>\<^verbatim>\<open>CoverageData.__nonzero__\<close> (\<^verbatim>\<open>__bool__\<close>)\<close>
  "nonzero =
     bnd (gets (\<lambda>w. dbs (self w) = None \<and> fs w (filename (self w)) = None)) (\<lambda>absent.
       if absent then ret False
       else
         except
           (with_connect (
              bnd (execute select_file_limit_1) (\<lambda>rows. ret (rows \<noteq> []))))
           (\<lambda>exc. if is_CoverageException exc then ret False else raise exc))"

subsection \<open>Merging\<close>

text \<open>
  A Python dictionary is the list of its items in insertion order: storing under a key
  that is present replaces the value in place. \<open>update\<close> works on two objects, so its
  state is the pair of \<^verbatim>\<open>other_data\<close> and the world (whose \<open>self\<close> is the object
  updated); both objects share the file system.
\<close>

fun dict_set :: "'k \<Rightarrow> 'v \<Rightarrow> ('k \<times> 'v) list \<Rightarrow> ('k \<times> 'v) list" where
  "dict_set k v [] = [(k, v)]"
| "dict_set k v (item # d) =
     (if fst item = k then (k, v) # d else item # dict_set k v d)"

definition dict_update :: "('k \<times> 'v) list \<Rightarrow> ('k \<times> 'v) list \<Rightarrow> ('k \<times> 'v) list" where
  \<comment> \<open>\<^verbatim>\<open>d.update(items)\<close>\<close>
  "dict_update d items = foldl (\<lambda>acc item. dict_set (fst item) (snd item) acc) d items"

definition dict_of :: "('k \<times> 'v) list \<Rightarrow> ('k \<times> 'v) list" where
  \<comment> \<open>a dictionary comprehension over the items\<close>
  "dict_of items = dict_update [] items"

definition dict_item :: "('k \<times> 'v) list \<Rightarrow> 'k \<Rightarrow> error + 'v" where
  \<comment> \<open>\<^verbatim>\<open>d[k]\<close>\<close>
  "dict_item d k = (case map_of d k of None \<Rightarrow> Inl KeyError | Some v \<Rightarrow> Inr v)"

fun map_raising :: "('a \<Rightarrow> error + 'b) \<Rightarrow> 'a list \<Rightarrow> error + 'b list" where
  \<comment> \<open>a comprehension whose element expression may raise\<close>
  "map_raising f [] = Inr []"
| "map_raising f (x # xs) =
     (case f x of Inl e \<Rightarrow> Inl e
      | Inr y \<Rightarrow> (case map_raising f xs of Inl e \<Rightarrow> Inl e | Inr ys \<Rightarrow> Inr (y # ys)))"

definition lift :: "error + 'a \<Rightarrow> ('a, 's) op" where
  "lift r = (case r of Inl e \<Rightarrow> raise e | Inr a \<Rightarrow> ret a)"

definition on_self :: "('a, world) op \<Rightarrow> ('a, coverage_data \<times> world) op" where
  "on_self m = (\<lambda>(other, w). case m w of (r, w') \<Rightarrow> (r, (other, w')))"

definition on_other :: "('a, world) op \<Rightarrow> ('a, coverage_data \<times> world) op" where
  \<comment> \<open>a method of \<^verbatim>\<open>other_data\<close>: run with \<^verbatim>\<open>other_data\<close> as \<open>self\<close>\<close>
  "on_other m =
     (\<lambda>(other, w). case m (w\<lparr>self := other\<rparr>) of
        (r, w') \<Rightarrow> (r, (self w', w'\<lparr>self := self w\<rparr>)))"

fun tracer_loop ::
  "(string \<times> string) list \<Rightarrow> (string \<times> string) list \<Rightarrow> string list \<Rightarrow>
   (string \<times> string) list \<Rightarrow> error + (string \<times> string) list" where
  \<comment> \<open>the loop \<^verbatim>\<open>for path in files.values()\<close> of \<^verbatim>\<open>update\<close> that fills
      \<^verbatim>\<open>tracer_map\<close>\<close>
  "tracer_loop this_tracers tracers [] tracer_map = Inr tracer_map"
| "tracer_loop this_tracers tracers (path # rest) tracer_map =
     (let other_tracer = (case map_of tracers path of None \<Rightarrow> [] | Some t \<Rightarrow> t)
      in case map_of this_tracers path of
           None \<Rightarrow> tracer_loop this_tracers tracers rest (dict_set path other_tracer tracer_map)
         | Some this_tracer \<Rightarrow>
             if this_tracer \<noteq> other_tracer
             then Inl (ConflictingFileTracer path this_tracer other_tracer)
             else tracer_loop this_tracers tracers rest
                    (dict_set path other_tracer tracer_map))"

definition merge_lines ::
  "(string \<Rightarrow> string) \<Rightarrow> ((string \<times> string) \<times> numbits) list \<Rightarrow>
   (string \<times> string \<times> numbits) list \<Rightarrow> ((string \<times> string) \<times> numbits) list" where
  \<comment> \<open>the loop \<^verbatim>\<open>for path, context, numbits in cur\<close> of \<^verbatim>\<open>update\<close> over the line data
      of the updated object\<close>
  "merge_lines amap lines0 rows =
     foldl (\<lambda>acc (path, ctx, nb).
              dict_set (amap path, ctx)
                (case map_of acc (amap path, ctx) of
                   Some incoming \<Rightarrow> numbits_union incoming nb
                 | None \<Rightarrow> nb) acc)
           lines0 rows"

definition read_other ::
  "(string \<Rightarrow> string) \<Rightarrow>
   ((string \<times> string) list \<times> string list \<times> (string \<times> string \<times> int \<times> int) list \<times>
    ((string \<times> string) \<times> numbits) list \<times> (string \<times> string) list, world) op" where
  \<comment> \<open>the block \<^verbatim>\<open>with other_data._connect() as conn\<close> of \<^verbatim>\<open>update\<close>; the result is
      \<^verbatim>\<open>files\<close>, \<^verbatim>\<open>contexts\<close>, \<^verbatim>\<open>arcs\<close>, \<^verbatim>\<open>lines\<close> and \<^verbatim>\<open>tracers\<close>\<close>
  "read_other amap =
     with_connect (
       bnd (execute select_path) (\<lambda>paths.
       bnd (ret (dict_of (map (\<lambda>path. (path, amap path)) paths))) (\<lambda>files.
       bnd (execute select_context) (\<lambda>contexts.
       bnd (execute select_arcs_joined) (\<lambda>rows.
       bnd (lift (map_raising (\<lambda>(path, ctx, fromno, tono).
              case dict_item files path of Inl e \<Rightarrow> Inl e
              | Inr local \<Rightarrow> Inr (local, ctx, fromno, tono)) rows)) (\<lambda>arcs.
       bnd (execute select_line_bits_joined) (\<lambda>rows.
       bnd (lift (map_raising (\<lambda>(path, ctx, nb).
              case dict_item files path of Inl e \<Rightarrow> Inl e
              | Inr local \<Rightarrow> Inr ((local, ctx), nb)) rows)) (\<lambda>line_items.
       bnd (execute select_tracers_joined) (\<lambda>rows.
       bnd (lift (map_raising (\<lambda>(path, tracer).
              case dict_item files path of Inl e \<Rightarrow> Inl e
              | Inr local \<Rightarrow> Inr (local, tracer)) rows)) (\<lambda>tracer_items.
       ret (files, contexts, arcs, dict_of line_items, dict_of tracer_items)))))))))))"

definition write_merged ::
  "(string \<Rightarrow> string) \<Rightarrow> (string \<times> string) list \<Rightarrow> string list \<Rightarrow>
   (string \<times> string \<times> int \<times> int) list \<Rightarrow> ((string \<times> string) \<times> numbits) list \<Rightarrow>
   (string \<times> string) list \<Rightarrow> (unit, world) op" where
  \<comment> \<open>the block \<^verbatim>\<open>with self._connect() as conn\<close> of \<^verbatim>\<open>update\<close>. The rows of the two
      generator arguments are computed where \<^verbatim>\<open>executemany\<close> reads them;
      \<open>arcs0\<close> and \<open>lines0\<close> are \<^verbatim>\<open>arcs\<close> and \<^verbatim>\<open>lines\<close> as read from \<^verbatim>\<open>other_data\<close>.\<close>
  "write_merged amap files contexts arcs0 lines0 tracers =
     with_connect (
       bnd (execute select_path) (\<lambda>paths.
       bnd (execute select_tracers_joined) (\<lambda>rows.
       bnd (ret (dict_update (dict_of (map (\<lambda>path. (path, [])) paths))
                   (dict_of (map (\<lambda>(path, tracer). (amap path, tracer)) rows))))
         (\<lambda>this_tracers.
       bnd (executemany insert_or_ignore_file (map snd files)) (\<lambda>_.
       bnd (execute select_id_path) (\<lambda>rows.
       bnd (ret (dict_of (map (\<lambda>(i, path). (path, i)) rows))) (\<lambda>file_ids.
       bnd (executemany insert_or_ignore_context contexts) (\<lambda>_.
       bnd (execute select_id_context) (\<lambda>rows.
       bnd (ret (dict_of (map (\<lambda>(i, ctx). (ctx, i)) rows))) (\<lambda>context_ids.
       bnd (lift (tracer_loop this_tracers tracers (map snd files) [])) (\<lambda>tracer_map.
       bnd (execute select_line_bits_joined) (\<lambda>rows.
       bnd (ret (merge_lines amap lines0 rows)) (\<lambda>lines.
       bnd (if arcs0 \<noteq> [] then
              bnd (choose_lines_or_arcs False True) (\<lambda>_.
              bnd (lift (map_raising (\<lambda>(file, ctx, fromno, tono).
                     case dict_item file_ids file of Inl e \<Rightarrow> Inl e
                     | Inr f \<Rightarrow>
                        (case dict_item context_ids ctx of Inl e \<Rightarrow> Inl e
                         | Inr c \<Rightarrow> Inr (Some f, Some c, fromno, tono))) arcs0))
                (\<lambda>arc_rows.
              executemany insert_or_ignore_arc arc_rows))
            else ret ()) (\<lambda>_.
       bnd (if lines \<noteq> [] then
              bnd (choose_lines_or_arcs True False) (\<lambda>_.
              bnd (execute delete_line_bits) (\<lambda>_.
              bnd (lift (map_raising (\<lambda>((file, ctx), nb).
                     case dict_item file_ids file of Inl e \<Rightarrow> Inl e
                     | Inr f \<Rightarrow>
                        (case dict_item context_ids ctx of Inl e \<Rightarrow> Inl e
                         | Inr c \<Rightarrow> Inr (Some f, Some c, nb))) lines))
                (\<lambda>line_rows.
              executemany insert_line_bits line_rows)))
            else ret ()) (\<lambda>_.
       bnd (lift (map_raising (\<lambda>(fname, tracer).
              case dict_item file_ids fname of Inl e \<Rightarrow> Inl e
              | Inr f \<Rightarrow> Inr (f, tracer)) tracer_map)) (\<lambda>tracer_rows.
       executemany insert_or_ignore_tracer tracer_rows))))))))))))))))"

definition update :: "(string \<Rightarrow> string) option \<Rightarrow> (unit, coverage_data \<times> world) op" where
  \<comment> \<open>\<^verbatim>\<open>CoverageData.update(other_data, aliases)\<close>; \<^verbatim>\<open>PathAliases()\<close> without aliases
      maps every path to itself\<close>
  "update aliases =
     bnd (gets (\<lambda>(other, w). (self w, other))) (\<lambda>(this, other).
     if has_lines this \<and> has_arcs other then raise CantCombineArcWithLine
     else if has_arcs this \<and> has_lines other then raise CantCombineLineWithArc
     else
       bnd (ret (case aliases of None \<Rightarrow> (\<lambda>path. path) | Some f \<Rightarrow> f)) (\<lambda>amap.
       bnd (on_self (modify start_using)) (\<lambda>_.
       bnd (on_other read) (\<lambda>_.
       bnd (on_other (read_other amap)) (\<lambda>(files, contexts, arcs, lines, tracers).
       bnd (on_self (write_merged amap files contexts arcs lines tracers)) (\<lambda>_.
       bnd (on_self (modify reset)) (\<lambda>_.
       on_self read)))))))"

subsection \<open>Contexts by line\<close>

definition select_arc_contexts ::
  "nat \<Rightarrow> nat list option \<Rightarrow> (int \<times> int \<times> string) list stmt" where
  \<comment> \<open>\<^verbatim>\<open>select arc.fromno, arc.tono, context.context from arc, context
      where arc.file_id = ? and arc.context_id = context.id\<close>, with the optional clause\<close>
  "select_arc_contexts fid ids d =
     Inr (concat (map (\<lambda>(f, c, fr, t).
            map (\<lambda>(j, ctx). (fr, t, ctx)) (filter (\<lambda>(j, ctx). c = Some j) (context_tbl d)))
          (filter (\<lambda>(f, c, fr, t). f = Some fid \<and> in_contexts ids c) (arc_tbl d))), d)"

definition select_numbits_contexts ::
  "nat \<Rightarrow> nat list option \<Rightarrow> (numbits \<times> string) list stmt" where
  \<comment> \<open>\<^verbatim>\<open>select l.numbits, c.context from line_bits l, context c
      where l.context_id = c.id and file_id = ?\<close>, with the optional clause\<close>
  "select_numbits_contexts fid ids d =
     Inr (concat (map (\<lambda>(f, c, nb).
            map (\<lambda>(j, ctx). (nb, ctx)) (filter (\<lambda>(j, ctx). c = Some j) (context_tbl d)))
          (filter (\<lambda>(f, c, nb). f = Some fid \<and> in_contexts ids c) (line_bits_tbl d))), d)"

definition dd_touch :: "'k \<Rightarrow> ('k \<times> 'v list) list \<Rightarrow> ('k \<times> 'v list) list" where
  \<comment> \<open>reading \<^verbatim>\<open>d[k]\<close> of a \<^verbatim>\<open>defaultdict(list)\<close> stores an empty list under a new key\<close>
  "dd_touch k m = (if k \<in> fst ` set m then m else m @ [(k, [])])"

definition dd_append :: "'k \<Rightarrow> 'v \<Rightarrow> ('k \<times> 'v list) list \<Rightarrow> ('k \<times> 'v list) list" where
  \<comment> \<open>\<^verbatim>\<open>d[k].append(v)\<close>\<close>
  "dd_append k v m =
     dict_set k ((case map_of m k of None \<Rightarrow> [] | Some l \<Rightarrow> l) @ [v]) (dd_touch k m)"

definition dd_append_new :: "'k \<Rightarrow> 'v \<Rightarrow> ('k \<times> 'v list) list \<Rightarrow> ('k \<times> 'v list) list" where
  \<comment> \<open>\<^verbatim>\<open>if v not in d[k]: d[k].append(v)\<close>\<close>
  "dd_append_new k v m =
     (if v \<in> set (case map_of m k of None \<Rightarrow> [] | Some l \<Rightarrow> l) then dd_touch k m
      else dd_append k v m)"

definition contexts_by_lineno :: "string \<Rightarrow> ((int \<times> string list) list, world) op" where
  \<comment> \<open>\<^verbatim>\<open>CoverageData.contexts_by_lineno\<close>; the result is the items of the dictionary\<close>
  "contexts_by_lineno fname =
     bnd (modify start_using) (\<lambda>_.
     with_connect (
       bnd (file_id fname False) (\<lambda>fid.
         case fid of None \<Rightarrow> ret []
         | Some i \<Rightarrow>
             bnd (gets (\<lambda>w. has_arcs (self w))) (\<lambda>has.
             bnd (gets (\<lambda>w. query_context_ids (self w))) (\<lambda>ids.
               if has then
                 bnd (execute (select_arc_contexts i ids)) (\<lambda>rows.
                 ret (foldl (\<lambda>m (fromno, tono, ctx).
                               dd_append_new tono ctx (dd_append_new fromno ctx m)) [] rows))
               else
                 bnd (execute (select_numbits_contexts i ids)) (\<lambda>rows.
                 ret (foldl (\<lambda>m (nb, ctx).
                               foldl (\<lambda>m lineno. dd_append (int lineno) ctx m) m
                                     (numbits_to_nums nb)) [] rows)))))))"

section \<open>Vocabulary of the statements and proofs\<close>

fun digits :: "nat \<Rightarrow> string" where
  \<comment> \<open>the decimal digits of a natural number\<close>
  "digits n =
     (if n < 10 then [''0123456789'' ! n]
      else digits (n div 10) @ [''0123456789'' ! (n mod 10)])"

definition str_int :: "int \<Rightarrow> string" where
  \<comment> \<open>\<^verbatim>\<open>str(i)\<close> of a Python integer, as \<^verbatim>\<open>"{}".format(i)\<close> renders it\<close>
  "str_int i = (if i < 0 then ''-'' @ digits (nat (- i)) else digits (nat i))"

definition wrong_schema_message ::
  "(string \<Rightarrow> string) \<Rightarrow> string \<Rightarrow> int \<Rightarrow> int \<Rightarrow> string" where
  \<comment> \<open>the message of the exception \<open>WrongSchema\<close> in \<^verbatim>\<open>_read_db\<close>:
      \<^verbatim>\<open>"Couldn't use data file {!r}: wrong schema: {} instead of {}".format(...)\<close>;
      \<open>repr\<close> is Python's \<^verbatim>\<open>repr\<close> on strings\<close>
  "wrong_schema_message repr fname v sv =
     ''Couldn't use data file '' @ repr fname @ '': wrong schema: '' @ str_int v @
     '' instead of '' @ str_int sv"

definition example_env :: "(string \<rightharpoonup> content) \<Rightarrow> environment" where
  \<comment> \<open>a process with the given files, for the examples\<close>
  "example_env files =
     \<lparr>fs = files, os_getpid = 1, os_path_abspath = (\<lambda>p. ''/w/'' @ p),
      sys_argv = ''['prog']'', coverage_version = ''6.0'', now = ''2021-08-01 12:00:00'',
      generated_suffix = ''host.1.000001''\<rparr>"

definition example_db :: "int list \<Rightarrow> database" where
  \<comment> \<open>a data file with the given rows of \<^verbatim>\<open>coverage_schema\<close> and one measured file\<close>
  "example_db versions =
     \<lparr>coverage_schema_tbl = versions,
      meta_tbl = [(''has_arcs'', ''0'')],
      file_tbl = [(1, ''a.py'')],
      context_tbl = [(1, [])],
      line_bits_tbl = [(Some 1, Some 1, [6])],
      arc_tbl = [],
      tracer_tbl = []\<rparr>"

fun is_bad_blob :: "error \<Rightarrow> bool" where
  \<comment> \<open>the bad-blob error: the \<^verbatim>\<open>CoverageException\<close> "Unrecognized serialization" of
      \<^verbatim>\<open>loads\<close>\<close>
  "is_bad_blob (UnrecognizedSerialization h n) = True"
| "is_bad_blob e = False"

definition never_bad_blob :: "('a, 's) op \<Rightarrow> bool" where
  \<comment> \<open>no run of the operation raises the bad-blob error\<close>
  "never_bad_blob m = (\<forall>s. case fst (m s) of Inl e \<Rightarrow> \<not> is_bad_blob e | Inr a \<Rightarrow> True)"

definition store :: "world \<Rightarrow> content option" where
  \<comment> \<open>the database the object holds: that of its in-memory connection, or the content
      of the file of its \<^verbatim>\<open>SqliteDb\<close>; \<open>None\<close> when the object has no \<^verbatim>\<open>SqliteDb\<close>\<close>
  "store w =
     (case dbs (self w) of None \<Rightarrow> None
      | Some sq \<Rightarrow>
         if sq_filename sq = '':memory:''
         then (case con sq of Some (MemCon c) \<Rightarrow> Some c | _ \<Rightarrow> None)
         else fs w (sq_filename sq))"

definition new_object :: "world \<Rightarrow> bool" where
  \<comment> \<open>the object is as \<^verbatim>\<open>__init__\<close> leaves it, in the process that made it, up to the
      context set with \<^verbatim>\<open>set_context\<close>\<close>
  "new_object w =
     (dbs (self w) = None \<and> \<not> have_used (self w) \<and> \<not> has_lines (self w) \<and>
      \<not> has_arcs (self w) \<and> pid (self w) = os_getpid w \<and>
      query_context_ids (self w) = None \<and> file_map (self w) = Map.empty \<and>
      current_context_id (self w) = None \<and>
      (no_disk (self w) \<longrightarrow> filename (self w) = '':memory:'' \<and> fs w '':memory:'' = None))"

definition preserves :: "('s \<Rightarrow> bool) \<Rightarrow> ('a, 's) op \<Rightarrow> bool" where
  \<comment> \<open>a property of the state that holds after the operation, returned or raised,
      whenever it held before\<close>
  "preserves P m = (\<forall>s. P s \<longrightarrow> P (snd (m s)))"

definition read_only :: "(content \<Rightarrow> sqlite_error + ('r \<times> content)) \<Rightarrow> bool" where
  \<comment> \<open>a statement that leaves the database as it is\<close>
  "read_only stmt = (\<forall>c r c'. stmt c = Inr (r, c') \<longrightarrow> c' = c)"

definition same_process :: "world \<Rightarrow> world \<Rightarrow> bool" where
  \<comment> \<open>the process, the file name and every file that exists are as in \<open>w\<close>\<close>
  "same_process w s =
     (os_getpid s = os_getpid w \<and> pid (self s) = pid (self w) \<and>
      filename (self s) = filename (self w) \<and>
      (\<forall>path c. fs w path = Some c \<longrightarrow> fs s path = Some c))"

definition insert_all :: "'a list \<Rightarrow> 'a list \<Rightarrow> 'a list" where
  \<comment> \<open>the table after \<^verbatim>\<open>insert or ignore\<close> of each row in turn, when the whole row is
      the key\<close>
  "insert_all rows tbl = fold (\<lambda>r t. if r \<in> set t then t else t @ [r]) rows tbl"

definition with_arcs :: "(nat option \<times> nat option \<times> int \<times> int) list \<Rightarrow> content \<Rightarrow> content" where
  \<comment> \<open>the database with these rows inserted into \<^verbatim>\<open>arc\<close>, ignoring the ones present\<close>
  "with_arcs rows c =
     (case c of Db d \<Rightarrow> Db (d\<lparr>arc_tbl := insert_all rows (arc_tbl d)\<rparr>) | _ \<Rightarrow> c)"

definition wp :: "('a, 's) op \<Rightarrow> ((error + 'a) \<Rightarrow> 's \<Rightarrow> bool) \<Rightarrow> 's \<Rightarrow> bool" where
  \<comment> \<open>the outcome of running \<open>m\<close> from \<open>s\<close> satisfies \<open>Q\<close>\<close>
  "wp m Q s = (case m s of (r, s') \<Rightarrow> Q r s')"

section \<open>Proofs\<close>

lemmas op_defs = ret_def raise_def bnd_def gets_def modify_def ensure_def except_def
  modify_self_def

lemmas sq_defs = new_SqliteDb_def sq_content_def sq_put_def con_run_def con_execute_def
  cov4_sig_def sq_raw_def execute_def execute_one_def executemany_def executescript_def
  sq_connect_def sq_close_def sq_enter_def sq_exit_def with_db_def on_tables_def pragma_def
  on_script_def sq_begin_def sq_commit_def sq_rollback_def

subsection \<open>Context switchers\<close>

lemma should_start_context_first:
  assumes "i < length ss" and "(ss ! i) frame \<noteq> None" and "\<forall>j<i. (ss ! j) frame = None"
  shows "should_start_context ss frame = (ss ! i) frame"
  using assms
proof (induction ss arbitrary: i)
  case Nil
  then show ?case by simp
next
  case (Cons s ss)
  show ?case
  proof (cases i)
    case 0
    with Cons.prems show ?thesis by (auto split: option.splits)
  next
    case (Suc k)
    with Cons.prems have "s frame = None" by auto
    moreover have "should_start_context ss frame = (ss ! k) frame"
      using Cons.prems Suc by (intro Cons.IH) auto
    ultimately show ?thesis using Suc by simp
  qed
qed

lemma should_start_context_None:
  "should_start_context ss frame = None \<longleftrightarrow> (\<forall>s \<in> set ss. s frame = None)"
  by (induction ss) (auto split: option.splits)

text \<open>
  Claim C10. \<^verbatim>\<open>combine_context_switchers\<close> returns \<^verbatim>\<open>None\<close> for the empty list and the
  switcher itself for a list of one. For a longer list it returns a switcher that, on
  every frame, gives the result of the first switcher of the list whose result is not
  \<^verbatim>\<open>None\<close>, and gives \<^verbatim>\<open>None\<close> exactly when every switcher of the list does.
\<close>

theorem combine_context_switchers_first_result:
  "combine_context_switchers [] = None \<and>
   combine_context_switchers [s] = Some s \<and>
   (2 \<le> length ss \<longrightarrow>
      (\<exists>c. combine_context_switchers ss = Some c \<and>
        (\<forall>frame.
           (\<forall>i < length ss.
              (ss ! i) frame \<noteq> None \<and> (\<forall>j<i. (ss ! j) frame = None)
              \<longrightarrow> c frame = (ss ! i) frame) \<and>
           (c frame = None \<longleftrightarrow> (\<forall>s \<in> set ss. s frame = None)))))"
  by (auto simp: combine_context_switchers_def should_start_context_None
        should_start_context_first)

theorem combine_context_switchers_first_result_witness:
  "combine_context_switchers ([] :: (nat \<Rightarrow> string option) list) = None \<and>
   combine_context_switchers [\<lambda>n::nat. Some ''t''] = Some (\<lambda>n. Some ''t'') \<and>
   (\<exists>c. combine_context_switchers
           [\<lambda>n::nat. None, \<lambda>n. if n = 1 then Some ''a'' else None, \<lambda>n. Some ''b''] = Some c \<and>
        c 1 = Some ''a'' \<and> c 2 = Some ''b'')"
proof -
  let ?ss = "[\<lambda>n::nat. None, \<lambda>n. if n = 1 then Some ''a'' else None, \<lambda>n. Some ''b'']"
  have len: "2 \<le> length ?ss" by simp
  from combine_context_switchers_first_result [of "\<lambda>n::nat. Some ''t''" ?ss] len
  obtain c where c: "combine_context_switchers ?ss = Some c"
    and first: "\<And>frame i. i < length ?ss \<Longrightarrow> (?ss ! i) frame \<noteq> None \<Longrightarrow>
        (\<forall>j<i. (?ss ! j) frame = None) \<Longrightarrow> c frame = (?ss ! i) frame"
    and one: "combine_context_switchers [\<lambda>n::nat. Some ''t''] = Some (\<lambda>n. Some ''t'')"
    and none: "combine_context_switchers ([] :: (nat \<Rightarrow> string option) list) = None"
    by blast
  have "c 1 = (?ss ! 1) 1" by (rule first) (simp_all add: less_Suc_eq)
  moreover have "c 2 = (?ss ! 2) 2"
    by (rule first) (auto simp: less_Suc_eq numeral_2_eq_2)
  ultimately show ?thesis using c one none by simp
qed


subsection \<open>The schema gate\<close>

lemma digits_7: "str_int 7 = ''7''"
  by (simp add: str_int_def)

lemmas open_defs = read_def with_connect_def connect_def open_db_def read_db_def
  select_version_def

lemma open_db_wrong_schema:
  assumes "dbs (self w) = None" and "filename (self w) \<noteq> '':memory:''"
    and "fs w (filename (self w)) = Some (Db d)" and "coverage_schema_tbl d = [v]"
    and "v \<noteq> SCHEMA_VERSION"
  shows "fst (open_db w) = Inl (WrongSchema (filename (self w)) v SCHEMA_VERSION)"
    and "fst (read w) = Inl (WrongSchema (filename (self w)) v SCHEMA_VERSION)"
  using assms by (simp_all add: open_defs op_defs sq_defs)

lemma open_db_no_version_row:
  assumes "dbs (self w) = None" and "filename (self w) \<noteq> '':memory:''"
    and "fs w (filename (self w)) = Some (Db d)" and "coverage_schema_tbl d = []"
  shows "fst (open_db w) = Inl (DoesntSeemToBeCoverageDataFile (filename (self w)) TypeError)"
    and "fst (read w) = Inl (DoesntSeemToBeCoverageDataFile (filename (self w)) TypeError)"
  using assms by (simp_all add: open_defs op_defs sq_defs)

lemma open_db_no_tables:
  assumes "dbs (self w) = None" and "filename (self w) \<noteq> '':memory:''"
    and "fs w (filename (self w)) = Some NoTables"
  shows "fst (open_db w) = Inl (DoesntSeemToBeCoverageDataFile (filename (self w))
           (CouldntUseDataFile (filename (self w)) (SqliteMsg NoSuchTable)))"
    and "fst (read w) = Inl (DoesntSeemToBeCoverageDataFile (filename (self w))
           (CouldntUseDataFile (filename (self w)) (SqliteMsg NoSuchTable)))"
  using assms by (simp_all add: open_defs op_defs sq_defs)

lemma open_db_succeeds_only_on_equal_versions:
  assumes "dbs (self w) = None" and "filename (self w) \<noteq> '':memory:''"
    and "fs w (filename (self w)) = Some c"
    and "fst (open_db w) = Inr () \<or> fst (read w) = Inr ()"
  shows "\<exists>d. c = Db d \<and> coverage_schema_tbl d = [SCHEMA_VERSION]"
proof (cases c)
  case (NotSqlite sig)
  with assms show ?thesis by (simp add: open_defs op_defs sq_defs)
next
  case NoTables
  with assms show ?thesis by (simp add: open_defs op_defs sq_defs)
next
  case (Db d)
  show ?thesis
  proof (cases "coverage_schema_tbl d")
    case Nil
    with assms Db show ?thesis by (simp add: open_defs op_defs sq_defs)
  next
    case (Cons v vs)
    show ?thesis
    proof (cases vs)
      case Nil
      with assms Db Cons show ?thesis
        by (cases "v = SCHEMA_VERSION") (simp_all add: open_defs op_defs sq_defs)
    next
      case (Cons v' vs')
      with assms Db \<open>coverage_schema_tbl d = v # vs\<close> show ?thesis
        by (simp add: open_defs op_defs sq_defs)
    qed
  qed
qed

text \<open>
  Claim C6. Opening an existing data file (\<^verbatim>\<open>_open_db\<close>, which \<^verbatim>\<open>read()\<close> reaches through
  \<^verbatim>\<open>_connect\<close>) fails with the malformed-file error when the schema-version row is absent
  (the table is empty or missing); it fails with the schema-mismatch error when the
  recorded version differs from the compiled-in version 7, and the message of that
  error holds the recorded version and then the compiled-in one; it succeeds only when
  the file records exactly the compiled-in version.
\<close>

theorem open_db_schema_gate:
  assumes "dbs (self w) = None" and "filename (self w) \<noteq> '':memory:''"
    and "fs w (filename (self w)) = Some c"
  shows "(c = NoTables \<or> (\<exists>d. c = Db d \<and> coverage_schema_tbl d = []) \<longrightarrow>
            (\<exists>exc. fst (open_db w) = Inl (DoesntSeemToBeCoverageDataFile (filename (self w)) exc)
                 \<and> fst (read w) = Inl (DoesntSeemToBeCoverageDataFile (filename (self w)) exc)))
       \<and> (\<forall>d v. c = Db d \<and> coverage_schema_tbl d = [v] \<and> v \<noteq> SCHEMA_VERSION \<longrightarrow>
            fst (open_db w) = Inl (WrongSchema (filename (self w)) v SCHEMA_VERSION) \<and>
            fst (read w) = Inl (WrongSchema (filename (self w)) v SCHEMA_VERSION) \<and>
            (\<exists>pre. wrong_schema_message repr (filename (self w)) v SCHEMA_VERSION
                     = pre @ str_int v @ '' instead of 7''))
       \<and> (fst (open_db w) = Inr () \<or> fst (read w) = Inr () \<longrightarrow>
            (\<exists>d. c = Db d \<and> coverage_schema_tbl d = [SCHEMA_VERSION]))
       \<and> SCHEMA_VERSION = 7"
proof -
  have malformed: "\<exists>exc. fst (open_db w) = Inl (DoesntSeemToBeCoverageDataFile (filename (self w)) exc)
      \<and> fst (read w) = Inl (DoesntSeemToBeCoverageDataFile (filename (self w)) exc)"
    if "c = NoTables \<or> (\<exists>d. c = Db d \<and> coverage_schema_tbl d = [])"
    using that assms open_db_no_tables [of w] open_db_no_version_row [of w] by auto
  have mismatch: "fst (open_db w) = Inl (WrongSchema (filename (self w)) v SCHEMA_VERSION) \<and>
      fst (read w) = Inl (WrongSchema (filename (self w)) v SCHEMA_VERSION) \<and>
      (\<exists>pre. wrong_schema_message repr (filename (self w)) v SCHEMA_VERSION
               = pre @ str_int v @ '' instead of 7'')"
    if h: "c = Db d \<and> coverage_schema_tbl d = [v] \<and> v \<noteq> SCHEMA_VERSION" for d v
  proof -
    have "wrong_schema_message repr (filename (self w)) v SCHEMA_VERSION
          = (''Couldn't use data file '' @ repr (filename (self w)) @ '': wrong schema: '')
            @ str_int v @ '' instead of 7''"
      using digits_7 by (simp add: wrong_schema_message_def SCHEMA_VERSION_def)
    then show ?thesis
      using assms h open_db_wrong_schema [of w d v] by blast
  qed
  have success: "\<exists>d. c = Db d \<and> coverage_schema_tbl d = [SCHEMA_VERSION]"
    if "fst (open_db w) = Inr () \<or> fst (read w) = Inr ()"
    using that assms open_db_succeeds_only_on_equal_versions by blast
  have "SCHEMA_VERSION = 7" by (simp add: SCHEMA_VERSION_def)
  with malformed mismatch success show ?thesis by blast
qed

theorem open_db_schema_gate_witness:
  "fst (read (CoverageData None SuffixNone False
          (example_env [''/w/.coverage'' \<mapsto> Db (example_db [6])])))
     = Inl (WrongSchema ''/w/.coverage'' 6 7) \<and>
   wrong_schema_message (\<lambda>s. ''<'' @ s @ ''>'') ''/w/.coverage'' 6 7
     = ''Couldn't use data file </w/.coverage>: wrong schema: 6 instead of 7'' \<and>
   fst (read (CoverageData None SuffixNone False
          (example_env [''/w/.coverage'' \<mapsto> Db (example_db [])])))
     = Inl (DoesntSeemToBeCoverageDataFile ''/w/.coverage'' TypeError) \<and>
   fst (read (CoverageData None SuffixNone False
          (example_env [''/w/.coverage'' \<mapsto> Db (example_db [7])]))) = Inr ()"
proof -
  let ?w = "\<lambda>vs. CoverageData None SuffixNone False
              (example_env [''/w/.coverage'' \<mapsto> Db (example_db vs)])"
  have pre: "dbs (self (?w vs)) = None" "filename (self (?w vs)) \<noteq> '':memory:''"
    "fs (?w vs) (filename (self (?w vs))) = Some (Db (example_db vs))"
    "filename (self (?w vs)) = ''/w/.coverage''" for vs
    by (simp_all add: CoverageData_def choose_filename_def filename_suffix_def example_env_def)
  have v6: "coverage_schema_tbl (example_db [6]) = [6]" "(6::int) \<noteq> SCHEMA_VERSION"
    and v0: "coverage_schema_tbl (example_db []) = []"
    by (simp_all add: example_db_def SCHEMA_VERSION_def)
  have ok: "fst (read (?w [7])) = Inr ()"
    by code_simp
  have msg: "wrong_schema_message (\<lambda>s. ''<'' @ s @ ''>'') ''/w/.coverage'' 6 7
     = ''Couldn't use data file </w/.coverage>: wrong schema: 6 instead of 7''"
    by (simp add: wrong_schema_message_def str_int_def)
  from open_db_schema_gate [OF pre(1,2,3), of "[6]" id] v6 pre(4) [of "[6]"]
  have "fst (read (?w [6])) = Inl (WrongSchema ''/w/.coverage'' 6 7)"
    by (simp add: SCHEMA_VERSION_def)
  moreover from open_db_no_version_row(2) [OF pre(1,2,3) v0] pre(4) [of "[]"]
  have "fst (read (?w [])) = Inl (DoesntSeemToBeCoverageDataFile ''/w/.coverage'' TypeError)"
    by simp
  ultimately show ?thesis using ok msg by simp
qed

subsection \<open>Weakest preconditions\<close>

lemma wp_ret [simp]: "wp (ret a) Q s = Q (Inr a) s"
  by (simp add: wp_def ret_def)

lemma wp_raise [simp]: "wp (raise e) Q s = Q (Inl e) s"
  by (simp add: wp_def raise_def)

lemma wp_gets [simp]: "wp (gets f) Q s = Q (Inr (f s)) s"
  by (simp add: wp_def gets_def)

lemma wp_modify [simp]: "wp (modify f) Q s = Q (Inr ()) (f s)"
  by (simp add: wp_def modify_def)

lemma wp_modify_self [simp]: "wp (modify_self f) Q w = Q (Inr ()) (w\<lparr>self := f (self w)\<rparr>)"
  by (simp add: modify_self_def)

lemma wp_bnd [simp]:
  "wp (bnd m f) Q s =
     wp m (\<lambda>r s'. case r of Inl e \<Rightarrow> Q (Inl e) s' | Inr a \<Rightarrow> wp (f a) Q s') s"
  by (simp add: wp_def bnd_def split: prod.splits sum.splits)

lemma wp_ensure [simp]: "wp (ensure m h) Q s = wp m (\<lambda>r s'. Q r (h (isl r) s')) s"
  by (simp add: wp_def ensure_def split: prod.splits)

lemma wp_except [simp]:
  "wp (except m h) Q s =
     wp m (\<lambda>r s'. case r of Inl e \<Rightarrow> wp (h e) Q s' | Inr a \<Rightarrow> Q (Inr a) s') s"
  by (simp add: wp_def except_def split: prod.splits sum.splits)

lemma wp_lift [simp]: "wp (lift r) Q s = Q r s"
  by (cases r) (simp_all add: lift_def)

lemma wp_mono:
  assumes "wp m Q s" and "\<And>r s'. Q r s' \<Longrightarrow> Q' r s'"
  shows "wp m Q' s"
  using assms by (simp add: wp_def split: prod.splits)

lemma wp_conj: "wp m (\<lambda>r s'. Q r s' \<and> Q' r s') s = (wp m Q s \<and> wp m Q' s)"
  by (simp add: wp_def split: prod.splits)

lemma wp_run: "wp m Q s \<Longrightarrow> Q (fst (m s)) (snd (m s))"
  by (simp add: wp_def split: prod.splits)

lemma wp_foreach:
  assumes "I s"
    and "\<And>x s. x \<in> set xs \<Longrightarrow> I s \<Longrightarrow>
           wp (body x) (\<lambda>r s'. case r of Inl e \<Rightarrow> Q (Inl e) s' | Inr _ \<Rightarrow> I s') s"
    and "\<And>s. I s \<Longrightarrow> Q (Inr ()) s"
  shows "wp (foreach xs body) Q s"
  using assms
proof (induction xs arbitrary: s)
  case Nil
  then show ?case by simp
next
  case (Cons x xs)
  have "wp (body x) (\<lambda>r s'. case r of Inl e \<Rightarrow> Q (Inl e) s' | Inr _ \<Rightarrow> I s') s"
    using Cons.prems by simp
  then show ?case
    apply simp
    apply (erule wp_mono)
    apply (auto split: sum.splits intro!: Cons.IH Cons.prems)
    done
qed


subsection \<open>New objects\<close>

lemmas create_defs = with_connect_def connect_def create_db_def SCHEMA_def
  insert_version_def insert_meta_def empty_database_def

lemma CoverageData_fields:
  "dbs (self (CoverageData b sfx nd e)) = None"
  "fs (CoverageData b sfx nd e) = fs e"
  "have_used (self (CoverageData b sfx nd e)) = False"
  "has_lines (self (CoverageData b sfx nd e)) = False"
  "has_arcs (self (CoverageData b sfx nd e)) = False"
  "pid (self (CoverageData b sfx nd e)) = os_getpid e"
  "os_getpid (CoverageData b sfx nd e) = os_getpid e"
  "no_disk (self (CoverageData b sfx nd e)) = nd"
  "query_context_ids (self (CoverageData b sfx nd e)) = None"
  "current_context (self (CoverageData b sfx nd e)) = None"
  "file_map (self (CoverageData b sfx nd e)) = Map.empty"
  by (simp_all add: CoverageData_def choose_filename_def split: option.splits)


subsection \<open>Choosing lines or arcs\<close>

lemma start_using_flags [simp]:
  "has_lines (self (start_using w)) = has_lines (self w)"
  "has_arcs (self (start_using w)) = has_arcs (self w)"
  by (simp_all add: start_using_def erase_def reset_def sq_close_def choose_filename_def Let_def
        split: option.splits)

lemma add_arcs_on_lines:
  assumes "has_lines (self w)"
  shows "fst (add_arcs arc_data w) = Inl CantAddBranchesToLineData"
  using assms by (simp add: add_arcs_def choose_lines_or_arcs_def op_defs)

lemma add_lines_on_arcs:
  assumes "has_arcs (self w)"
  shows "fst (add_lines line_data w) = Inl CantAddLinesToBranchData"
  using assms by (simp add: add_lines_def choose_lines_or_arcs_def op_defs)

lemma start_using_new:
  assumes "new_object w"
  shows "dbs (self (start_using w)) = None"
    and "fs (start_using w) (filename (self (start_using w))) = None"
    and "have_used (self (start_using w))"
    and "file_map (self (start_using w)) = Map.empty"
    and "current_context_id (self (start_using w)) = None"
    and "query_context_ids (self (start_using w)) = None"
    and "current_context (self (start_using w)) = current_context (self w)"
    and "filename (self (start_using w)) = filename (self w)"
  using assms
  by (simp_all add: new_object_def start_using_def erase_def reset_def sq_close_def Let_def)

lemma add_lines_empty_new:
  assumes "new_object w"
  shows "\<exists>w1 d. add_lines [] w = (Inr (), w1) \<and> has_lines (self w1) \<and> \<not> has_arcs (self w1) \<and>
           store w1 = Some (Db d) \<and> map_of (meta_tbl d) ''has_arcs'' = Some ''0'' \<and>
           line_bits_tbl d = [] \<and> arc_tbl d = [] \<and> file_tbl d = []"
proof -
  let ?w = "start_using w"
  note su = start_using_new [OF assms]
  have fl: "\<not> has_lines (self ?w)" "\<not> has_arcs (self ?w)"
    using assms by (simp_all add: new_object_def)
  show ?thesis
  proof (cases "filename (self ?w) = '':memory:''")
    case True
    with su(1,2) fl show ?thesis
      by (simp add: add_lines_def choose_lines_or_arcs_def create_defs op_defs sq_defs store_def)
  next
    case False
    with su(1,2) fl show ?thesis
      by (simp add: add_lines_def choose_lines_or_arcs_def create_defs op_defs sq_defs store_def)
  qed
qed

lemma add_arcs_empty_new:
  assumes "new_object w"
  shows "\<exists>w1 d. add_arcs [] w = (Inr (), w1) \<and> has_arcs (self w1) \<and> \<not> has_lines (self w1) \<and>
           store w1 = Some (Db d) \<and> map_of (meta_tbl d) ''has_arcs'' = Some ''1'' \<and>
           line_bits_tbl d = [] \<and> arc_tbl d = [] \<and> file_tbl d = []"
proof -
  let ?w = "start_using w"
  note su = start_using_new [OF assms]
  have fl: "\<not> has_lines (self ?w)" "\<not> has_arcs (self ?w)"
    using assms by (simp_all add: new_object_def)
  show ?thesis
  proof (cases "filename (self ?w) = '':memory:''")
    case True
    with su(1,2) fl show ?thesis
      by (simp add: add_arcs_def choose_lines_or_arcs_def create_defs op_defs sq_defs store_def)
  next
    case False
    with su(1,2) fl show ?thesis
      by (simp add: add_arcs_def choose_lines_or_arcs_def create_defs op_defs sq_defs store_def)
  qed
qed

lemma CoverageData_new_object:
  assumes "nd \<longrightarrow> fs e '':memory:'' = None"
  shows "new_object (CoverageData b sfx nd e)"
  using assms
  by (auto simp: new_object_def CoverageData_def choose_filename_def split: option.splits)


text \<open>
  Claim C9. On an object as \<^verbatim>\<open>__init__\<close> leaves it, \<^verbatim>\<open>add_lines({})\<close> returns normally and
  establishes the mode: the flags say lines, the store has the \<^verbatim>\<open>meta\<close> row
  \<^verbatim>\<open>has_arcs = '0'\<close>, and no file, line or arc row was added. Every \<^verbatim>\<open>add_arcs\<close> call after
  it, in this process or in a forked one, raises the mixed-mode error. Symmetrically for
  \<^verbatim>\<open>add_arcs({})\<close>, with the row \<^verbatim>\<open>has_arcs = '1'\<close>, followed by \<^verbatim>\<open>add_lines\<close>.
\<close>

theorem empty_add_establishes_mode:
  assumes "new_object w"
  shows "(\<exists>w1 d. add_lines [] w = (Inr (), w1) \<and>
            has_lines (self w1) \<and> \<not> has_arcs (self w1) \<and>
            store w1 = Some (Db d) \<and> map_of (meta_tbl d) ''has_arcs'' = Some ''0'' \<and>
            line_bits_tbl d = [] \<and> arc_tbl d = [] \<and> file_tbl d = [] \<and>
            (\<forall>arc_data p. fst (add_arcs arc_data (w1\<lparr>os_getpid := p\<rparr>))
                            = Inl CantAddBranchesToLineData)) \<and>
         (\<exists>w1 d. add_arcs [] w = (Inr (), w1) \<and>
            has_arcs (self w1) \<and> \<not> has_lines (self w1) \<and>
            store w1 = Some (Db d) \<and> map_of (meta_tbl d) ''has_arcs'' = Some ''1'' \<and>
            line_bits_tbl d = [] \<and> arc_tbl d = [] \<and> file_tbl d = [] \<and>
            (\<forall>line_data p. fst (add_lines line_data (w1\<lparr>os_getpid := p\<rparr>))
                             = Inl CantAddLinesToBranchData))"
proof -
  from add_lines_empty_new [OF assms] obtain w1 d where
    l: "add_lines [] w = (Inr (), w1)" "has_lines (self w1)" "\<not> has_arcs (self w1)"
       "store w1 = Some (Db d)" "map_of (meta_tbl d) ''has_arcs'' = Some ''0''"
       "line_bits_tbl d = []" "arc_tbl d = []" "file_tbl d = []"
    by blast
  have "fst (add_arcs arc_data (w1\<lparr>os_getpid := p\<rparr>)) = Inl CantAddBranchesToLineData"
    for arc_data p
    using l(2) by (intro add_arcs_on_lines) simp
  with l have lines_part: "\<exists>w1 d. add_lines [] w = (Inr (), w1) \<and>
            has_lines (self w1) \<and> \<not> has_arcs (self w1) \<and>
            store w1 = Some (Db d) \<and> map_of (meta_tbl d) ''has_arcs'' = Some ''0'' \<and>
            line_bits_tbl d = [] \<and> arc_tbl d = [] \<and> file_tbl d = [] \<and>
            (\<forall>arc_data p. fst (add_arcs arc_data (w1\<lparr>os_getpid := p\<rparr>))
                            = Inl CantAddBranchesToLineData)"
    by blast
  from add_arcs_empty_new [OF assms] obtain w2 d2 where
    a: "add_arcs [] w = (Inr (), w2)" "has_arcs (self w2)" "\<not> has_lines (self w2)"
       "store w2 = Some (Db d2)" "map_of (meta_tbl d2) ''has_arcs'' = Some ''1''"
       "line_bits_tbl d2 = []" "arc_tbl d2 = []" "file_tbl d2 = []"
    by blast
  have "fst (add_lines line_data (w2\<lparr>os_getpid := p\<rparr>)) = Inl CantAddLinesToBranchData"
    for line_data p
    using a(2) by (intro add_lines_on_arcs) simp
  with a have arcs_part: "\<exists>w1 d. add_arcs [] w = (Inr (), w1) \<and>
            has_arcs (self w1) \<and> \<not> has_lines (self w1) \<and>
            store w1 = Some (Db d) \<and> map_of (meta_tbl d) ''has_arcs'' = Some ''1'' \<and>
            line_bits_tbl d = [] \<and> arc_tbl d = [] \<and> file_tbl d = [] \<and>
            (\<forall>line_data p. fst (add_lines line_data (w1\<lparr>os_getpid := p\<rparr>))
                             = Inl CantAddLinesToBranchData)"
    by blast
  from lines_part arcs_part show ?thesis by blast
qed

theorem empty_add_establishes_mode_witness:
  "new_object (CoverageData None SuffixNone False
                 (example_env [''/w/.coverage'' \<mapsto> Db (example_db [7])])) \<and>
   fst (add_arcs [(''a.py'', [(1, 2)])]
         (snd (add_lines []
           (CoverageData None SuffixNone False
              (example_env [''/w/.coverage'' \<mapsto> Db (example_db [7])])))))
     = Inl CantAddBranchesToLineData \<and>
   fst (add_lines [(''a.py'', [1])]
         (snd (add_arcs []
           (CoverageData None SuffixNone False
              (example_env [''/w/.coverage'' \<mapsto> Db (example_db [7])])))))
     = Inl CantAddLinesToBranchData"
proof -
  let ?w = "CoverageData None SuffixNone False
              (example_env [''/w/.coverage'' \<mapsto> Db (example_db [7])])"
  have n: "new_object ?w" by (rule CoverageData_new_object) simp
  from empty_add_establishes_mode [OF n] obtain w1 w2 where
    l: "add_lines [] ?w = (Inr (), w1)"
    and la: "\<And>arc_data p. fst (add_arcs arc_data (w1\<lparr>os_getpid := p\<rparr>))
               = Inl CantAddBranchesToLineData"
    and a: "add_arcs [] ?w = (Inr (), w2)"
    and al: "\<And>line_data p. fst (add_lines line_data (w2\<lparr>os_getpid := p\<rparr>))
               = Inl CantAddLinesToBranchData"
    by blast
  have "fst (add_arcs [(''a.py'', [(1, 2)])] w1) = Inl CantAddBranchesToLineData"
    using la [of "[(''a.py'', [(1, 2)])]" "os_getpid w1"] by simp
  moreover have "fst (add_lines [(''a.py'', [1])] w2) = Inl CantAddLinesToBranchData"
    using al [of "[(''a.py'', [1])]" "os_getpid w2"] by simp
  ultimately show ?thesis using n l a by simp
qed

subsection \<open>Numbits\<close>




lemma length_fold_set_num [simp]: "length (fold set_num nums bs) = length bs"
  by (induction nums arbitrary: bs) (simp_all add: set_num_def)





subsection \<open>Adding lines twice\<close>









end
